theory Spec2Isabelle
  imports Complex_Main
begin

section \<open>Data model (package models)\<close>

text \<open>
  A finite \<^verbatim>\<open>float64\<close> is the real number it denotes, and comparisons of
  such values are exact. Every number that travels through the enrichment
  cycle is finite (it is decoded from JSON, which has no other numbers, or is
  one of the sums 0, 3, 5 and 8), so the records of the cycle carry reals. The
  one rounded operation of the cycle is the product in the score (see below).
  The JSON methods of \<^verbatim>\<open>NullFloat64\<close> are stated for every \<^verbatim>\<open>float64\<close>, the
  infinities and NaN included. A \<^verbatim>\<open>time.Time\<close> is the number of seconds
  since the Unix epoch; the zero value of \<^verbatim>\<open>time.Time\<close> (January 1, year 1,
  UTC) is the instant \<open>-62135596800\<close>.
\<close>

type_synonym time = int

definition zero_time :: time where
  "zero_time = - 62135596800"

definition IsZero :: "time \<Rightarrow> bool" where
  "IsZero t = (t = zero_time)"

definition time_Unix :: "int \<Rightarrow> time" where
  "time_Unix sec = sec"

text \<open>Every value of the type \<^verbatim>\<open>float64\<close>.\<close>

datatype float64 = Finite real | PosInf | NegInf | NaN

text \<open>\<^verbatim>\<open>sql.NullFloat64\<close> wrapped by \<^verbatim>\<open>models.NullFloat64\<close>. The type of the
  number is a parameter: \<^typ>\<open>real\<close> inside the cycle, \<^typ>\<open>float64\<close> for the
  JSON methods.\<close>

record 'n NullFloat64 =
  Float64 :: 'n
  Valid :: bool

text \<open>\<^verbatim>\<open>sql.NullTime\<close> wrapped by \<^verbatim>\<open>models.NullTime\<close>; its \<^verbatim>\<open>Valid\<close> flag is
  named \<open>ValidT\<close> here, since a record field name is global.\<close>

record NullTime =
  Time :: time
  ValidT :: bool

text \<open>The literals \<^verbatim>\<open>NullFloat64{sql.NullFloat64{Valid: false}}\<close> and
  \<^verbatim>\<open>NullTime{NullTime: sql.NullTime{Valid: false}}\<close>: the unnamed field takes
  Go's zero value.\<close>

definition null_float :: "real NullFloat64" where
  "null_float = \<lparr>Float64 = 0, Valid = False\<rparr>"

definition null_time :: NullTime where
  "null_time = \<lparr>Time = zero_time, ValidT = False\<rparr>"

definition NewNullFloat64 :: "real \<Rightarrow> real NullFloat64" where
  "NewNullFloat64 f = \<lparr>Float64 = f, Valid = True\<rparr>"

definition NewNullTime :: "time \<Rightarrow> NullTime" where
  "NewNullTime t = \<lparr>Time = t, ValidT = True\<rparr>"

record Stock =
  ID :: string
  Ticker :: string
  Company :: string
  Brokerage :: string
  Action :: string
  RatingFrom :: string
  RatingTo :: string
  TargetFrom :: "real NullFloat64"
  TargetTo :: "real NullFloat64"
  CurrentPrice :: real
  PERatio :: "real NullFloat64"
  DividendYield :: "real NullFloat64"
  MarketCapitalization :: "real NullFloat64"
  Alpha :: "real NullFloat64"
  LatestTradingDay :: NullTime
  RecommendationScore :: "real NullFloat64"
  CreatedAt :: time
  UpdatedAt :: time

text \<open>The composite literal \<^verbatim>\<open>models.Stock{}\<close>: every field at its zero value.\<close>

definition zero_Stock :: Stock where
  "zero_Stock =
     \<lparr>ID = [], Ticker = [], Company = [], Brokerage = [], Action = [],
      RatingFrom = [], RatingTo = [], TargetFrom = null_float, TargetTo = null_float,
      CurrentPrice = 0, PERatio = null_float, DividendYield = null_float,
      MarketCapitalization = null_float, Alpha = null_float,
      LatestTradingDay = null_time, RecommendationScore = null_float,
      CreatedAt = zero_time, UpdatedAt = zero_time\<rparr>"

section \<open>The recommendation score (cron/enricher.go)\<close>

text \<open>The constant \<^verbatim>\<open>1.1\<close> of the source as a \<^verbatim>\<open>float64\<close>: the double nearest
  to 11/10, which is 2476979795053773 / 2^51.\<close>

definition float64_1_1 :: real where
  "float64_1_1 = 2476979795053773 / 2251799813685248"

text \<open>\<^verbatim>\<open>CalculateRecommendationScore\<close>: a local accumulator starting at 0.0 and
  two guarded increments, in the order of the source. The first parameter is
  the machine's \<^verbatim>\<open>float64\<close> multiplication, used for \<^verbatim>\<open>stock.CurrentPrice*1.1\<close>.\<close>

definition CalculateRecommendationScore :: "(real \<Rightarrow> real \<Rightarrow> real) \<Rightarrow> Stock \<Rightarrow> real" where
  "CalculateRecommendationScore float64_mul stock =
     (let scoreVal = 0;
          scoreVal = (if Action stock = ''Buy'' \<or> Action stock = ''Strong Buy''
                      then scoreVal + 5 else scoreVal);
          scoreVal = (if CurrentPrice stock > 0 \<and> Valid (TargetTo stock)
                         \<and> Float64 (TargetTo stock) > float64_mul (CurrentPrice stock) float64_1_1
                      then scoreVal + 3 else scoreVal)
      in scoreVal)"

text \<open>
  The \<^verbatim>\<open>float64\<close> product of IEEE 754: the exact product rounded to the
  nearest number with a 53-bit significand, ties to the even one. For a result
  below \<open>2\<^sup>-\<^sup>1\<^sup>0\<^sup>2\<^sup>2\<close> the spacing is that of the subnormal numbers. A product
  that overflows is \<^verbatim>\<open>+Inf\<close> in Go and at least \<open>2\<^sup>1\<^sup>0\<^sup>2\<^sup>4\<close> here; no
  finite target exceeds either, so the comparison of the score is the same.
\<close>

definition round_half_even :: "real \<Rightarrow> int" where
  "round_half_even x =
     (let n = \<lfloor>x\<rfloor>; r = x - of_int n
      in if r < 1 / 2 then n else if 1 / 2 < r then n + 1 else if even n then n else n + 1)"

definition float64_round :: "real \<Rightarrow> real" where
  "float64_round x =
     (if x = 0 then 0
      else let e = max \<lfloor>log 2 \<bar>x\<bar>\<rfloor> (- 1022);
               ulp = 2 powr (of_int e - 52)
           in of_int (round_half_even (x / ulp)) * ulp)"

definition float64_product :: "real \<Rightarrow> real \<Rightarrow> real" where
  "float64_product x y = float64_round (x * y)"

section \<open>JSON form of an optional number (package models)\<close>

text \<open>
  \<^verbatim>\<open>strings.TrimSpace\<close> removes the leading and the trailing white space of a
  UTF-8 text, white space being what \<^verbatim>\<open>unicode.IsSpace\<close> accepts: the six ASCII
  characters tab, line feed, vertical tab, form feed, carriage return and
  space, and the code points U+0085, U+00A0, U+1680, U+2000 to U+200A, U+2028,
  U+2029, U+202F, U+205F and U+3000. The list below has their UTF-8 encodings.
  A byte sequence that is not one of them (an invalid or overlong encoding
  included) decodes to a rune that is not white space.
\<close>

definition white_space_runes :: "string list" where
  "white_space_runes =
     [[CHR 0x09], [CHR 0x0A], [CHR 0x0B], [CHR 0x0C], [CHR 0x0D], [CHR 0x20],
      [CHR 0xC2, CHR 0x85], [CHR 0xC2, CHR 0xA0],
      [CHR 0xE1, CHR 0x9A, CHR 0x80],
      [CHR 0xE2, CHR 0x80, CHR 0x80], [CHR 0xE2, CHR 0x80, CHR 0x81],
      [CHR 0xE2, CHR 0x80, CHR 0x82], [CHR 0xE2, CHR 0x80, CHR 0x83],
      [CHR 0xE2, CHR 0x80, CHR 0x84], [CHR 0xE2, CHR 0x80, CHR 0x85],
      [CHR 0xE2, CHR 0x80, CHR 0x86], [CHR 0xE2, CHR 0x80, CHR 0x87],
      [CHR 0xE2, CHR 0x80, CHR 0x88], [CHR 0xE2, CHR 0x80, CHR 0x89],
      [CHR 0xE2, CHR 0x80, CHR 0x8A],
      [CHR 0xE2, CHR 0x80, CHR 0xA8], [CHR 0xE2, CHR 0x80, CHR 0xA9],
      [CHR 0xE2, CHR 0x80, CHR 0xAF], [CHR 0xE2, CHR 0x81, CHR 0x9F],
      [CHR 0xE3, CHR 0x80, CHR 0x80]]"

text \<open>The number of bytes of the rune of the list that the text starts with,
  0 when it starts with none; then the removal of all such runes at the start.
  At the end of a text the runes are read backwards.\<close>

definition leading_rune :: "string list \<Rightarrow> string \<Rightarrow> nat" where
  "leading_rune runes s =
     (case filter (\<lambda>r. take (length r) s = r) runes of [] \<Rightarrow> 0 | r # _ \<Rightarrow> length r)"

function trim_runes :: "string list \<Rightarrow> string \<Rightarrow> string" where
  "trim_runes runes s =
     (if leading_rune runes s = 0 \<or> s = [] then s
      else trim_runes runes (drop (leading_rune runes s) s))"
  by pat_completeness auto
termination
  by (relation "measure (\<lambda>(runes, s). length s)") auto

declare trim_runes.simps [simp del]

definition TrimLeft :: "string \<Rightarrow> string" where
  "TrimLeft s = trim_runes white_space_runes s"

definition TrimRight :: "string \<Rightarrow> string" where
  "TrimRight s = rev (trim_runes (map rev white_space_runes) (rev s))"

definition TrimSpace :: "string \<Rightarrow> string" where
  "TrimSpace s = TrimRight (TrimLeft s)"

text \<open>
  \<^verbatim>\<open>strings.ToLower\<close> on the ASCII letters: A to Z are moved to a to z. On
  other runes the function of the library may differ, but no rune outside
  ASCII has a lower case among the five characters of the text \<^verbatim>\<open>"n/a"\<close>, so
  the one use of the function, the comparison with that text, has the same
  outcome.
\<close>

definition toLower_char :: "char \<Rightarrow> char" where
  "toLower_char c =
     (let n = (of_char c :: nat) in if 65 \<le> n \<and> n \<le> 90 then char_of (n + 32) else c)"

definition ToLower :: "string \<Rightarrow> string" where
  "ToLower s = map toLower_char s"

text \<open>A Go \<^verbatim>\<open>error\<close> built by \<^verbatim>\<open>fmt.Errorf\<close>: the text of the format string (in
  ASCII, without the interpolated values) and, where the source appends the
  error found so far with \<^verbatim>\<open>%v\<close>, that earlier error.\<close>

datatype error = Errorf string "error option"

text \<open>
  \<^verbatim>\<open>json.Marshal\<close> and \<^verbatim>\<open>json.Unmarshal\<close> of the standard library on a plain
  \<^verbatim>\<open>float64\<close>. The encoder refuses the infinities and NaN
  (\<^verbatim>\<open>UnsupportedValueError\<close>) and writes a finite number with \<^verbatim>\<open>strconv\<close>; the
  decoder reads a JSON number with \<^verbatim>\<open>strconv\<close> and so yields finite numbers
  only. The two conversions of \<^verbatim>\<open>strconv\<close> are parameters: \<open>format\<close> gives the
  text of a number, \<open>parse\<close> the number of a text or \<open>None\<close> for an error.
\<close>

definition json_Marshal :: "(real \<Rightarrow> string) \<Rightarrow> float64 \<Rightarrow> string option" where
  "json_Marshal format v = (case v of Finite x \<Rightarrow> Some (format x) | _ \<Rightarrow> None)"

definition json_Unmarshal :: "(string \<Rightarrow> real option) \<Rightarrow> string \<Rightarrow> float64 option" where
  "json_Unmarshal parse data = map_option Finite (parse data)"

text \<open>
  \<^verbatim>\<open>NullFloat64.MarshalJSON\<close> and \<^verbatim>\<open>NullFloat64.UnmarshalJSON\<close>.
  \<^verbatim>\<open>UnmarshalJSON\<close> has a pointer receiver: the model takes the old value and
  returns the error together with the new value.
\<close>

definition MarshalJSON :: "(real \<Rightarrow> string) \<Rightarrow> float64 NullFloat64 \<Rightarrow> error + string" where
  "MarshalJSON format nf =
     (if \<not> Valid nf then Inr ''null''
      else case json_Marshal format (Float64 nf) of
             None \<Rightarrow> Inl (Errorf ''json: unsupported value'' None)
           | Some b \<Rightarrow> Inr b)"

definition UnmarshalJSON ::
  "(string \<Rightarrow> real option) \<Rightarrow> float64 NullFloat64 \<Rightarrow> string
     \<Rightarrow> error option \<times> float64 NullFloat64" where
  \<open>UnmarshalJSON parse nf data =
     (let s = TrimSpace data in
      if s = ''null'' \<or> s = '''' \<or> s = ''""'' \<or> ToLower s = ''"n/a"''
      then (None, nf\<lparr>Valid := False\<rparr>)
      else case json_Unmarshal parse data of
             None \<Rightarrow> (Some (Errorf ''json: cannot unmarshal into Go value of type float64'' None),
                      nf\<lparr>Valid := False\<rparr>)
           | Some f \<Rightarrow> (None, nf\<lparr>Float64 := f, Valid := True\<rparr>))\<close>

text \<open>Marshaling a value and unmarshaling the text into \<open>nf\<close>.\<close>

definition marshal_then_unmarshal ::
  "(real \<Rightarrow> string) \<Rightarrow> (string \<Rightarrow> real option) \<Rightarrow> float64 NullFloat64
     \<Rightarrow> float64 NullFloat64 \<Rightarrow> error + (error option \<times> float64 NullFloat64)" where
  "marshal_then_unmarshal format parse nf v =
     (case MarshalJSON format v of
        Inl err \<Rightarrow> Inl err
      | Inr b \<Rightarrow> Inr (UnmarshalJSON parse nf b))"

section \<open>The three source clients (package api)\<close>

definition KARENAI_API_URL :: string where
  "KARENAI_API_URL = ''https://api.karenai.click/swechallenge/list''"

definition FINNHUB_BASE_URL :: string where
  "FINNHUB_BASE_URL = ''https://finnhub.io/api/v1''"

definition ALPHA_VANTAGE_BASE_URL :: string where
  "ALPHA_VANTAGE_BASE_URL = ''https://www.alphavantage.co/query''"

record karenaiResponse =
  Items :: "Stock list"
  NextPage :: string

text \<open>\<^verbatim>\<open>FinnhubMetricResponse.Metric\<close>; the JSON names are \<^verbatim>\<open>peExclExtraTTM\<close>,
  \<^verbatim>\<open>peRatio\<close>, \<^verbatim>\<open>dividendYieldAnnually\<close>, \<^verbatim>\<open>dividendYield\<close> and
  \<^verbatim>\<open>marketCapitalization\<close>.\<close>

record FinnhubMetricResponse =
  PeExclExtraTTM :: real
  PeRatio :: real
  MetricDividendYield :: real
  DividendYieldAlt :: real
  MarketCap :: real

record FinnhubQuoteResponse =
  QuoteCurrentPrice :: real
  Timestamp :: int

record FinnhubData =
  fh_PE_Ratio :: real
  fh_DividendYield :: real
  fh_MarketCapitalization :: real
  fh_CurrentPrice :: real
  fh_LatestTradingDay :: time
  fh_Error :: "error option"

record AlphaVantageData =
  av_Alpha :: real
  av_LatestTradingDay :: time
  av_Error :: "error option"

definition zero_FinnhubData :: FinnhubData where
  "zero_FinnhubData =
     \<lparr>fh_PE_Ratio = 0, fh_DividendYield = 0, fh_MarketCapitalization = 0,
      fh_CurrentPrice = 0, fh_LatestTradingDay = zero_time, fh_Error = None\<rparr>"

definition zero_AlphaVantageData :: AlphaVantageData where
  "zero_AlphaVantageData = \<lparr>av_Alpha = 0, av_LatestTradingDay = zero_time, av_Error = None\<rparr>"

text \<open>A decoded JSON value, as \<^verbatim>\<open>json.Unmarshal\<close> stores it in an
  \<^verbatim>\<open>interface{}\<close>; an object is a finite map, kept as an association list.\<close>

datatype json =
    JNull
  | JBool bool
  | JNumber real
  | JString string
  | JArray "json list"
  | JObject "(string \<times> json) list"

text \<open>\<^verbatim>\<open>m[k].(string)\<close> and \<^verbatim>\<open>m[k].(map[string]interface{})\<close> in their
  two-result form: \<open>None\<close> when the key is missing or holds another type.\<close>

definition string_at :: "(string \<times> json) list \<Rightarrow> string \<Rightarrow> string option" where
  "string_at m k = (case map_of m k of Some (JString v) \<Rightarrow> Some v | _ \<Rightarrow> None)"

definition object_at :: "(string \<times> json) list \<Rightarrow> string \<Rightarrow> (string \<times> json) list option" where
  "object_at m k = (case map_of m k of Some (JObject v) \<Rightarrow> Some v | _ \<Rightarrow> None)"

text \<open>What one HTTP exchange gives the caller: the request fails, the body
  cannot be read, or a status code and a body arrive.\<close>

datatype http_outcome =
    RequestFailed
  | ReadFailed
  | Response nat string

record request =
  req_method :: string
  req_url :: string
  req_header :: "(string \<times> string) list"

text \<open>What \<^verbatim>\<open>tx.Commit()\<close> can do: commit and return no error, return an error
  with nothing committed, or return an error although the database has
  committed (the answer of the database is lost).\<close>

datatype commit_outcome = Committed | NotCommitted | CommittedUnreported

text \<open>
  Everything a run reads from outside the program: the environment variables,
  the outcome of each HTTP exchange (for the per-ticker clients, indexed by the
  iteration of the enrichment loop that issues it and by the URL), the results
  of the standard library's decoders, the clock, the machine's \<^verbatim>\<open>float64\<close>
  multiplication (\<open>float64_product\<close> on a machine that follows IEEE 754), and
  the outcomes of the database driver's calls (the \<open>i\<close>-th \<^verbatim>\<open>ExecContext\<close> of
  a transaction, what \<^verbatim>\<open>tx.Commit()\<close> does, and the identifier that
  \<^verbatim>\<open>gen_random_uuid()\<close> gives a row inserted by it).
\<close>

record world =
  Getenv :: "string \<Rightarrow> string"
  http_NewRequest_ok :: "string \<Rightarrow> string \<Rightarrow> bool"
  client_Do :: "request \<Rightarrow> http_outcome"
  http_Get :: "nat \<Rightarrow> string \<Rightarrow> http_outcome"
  json_Unmarshal_karenai :: "string \<Rightarrow> karenaiResponse option"
  json_Unmarshal_metric :: "string \<Rightarrow> FinnhubMetricResponse option"
  json_Unmarshal_quote :: "string \<Rightarrow> FinnhubQuoteResponse option"
  json_Unmarshal_object :: "string \<Rightarrow> (string \<times> json) list option"
  time_Parse :: "string \<Rightarrow> time option"
  time_Now :: "nat \<Rightarrow> time"
  float64_mul :: "real \<Rightarrow> real \<Rightarrow> real"
  db_BeginTx_ok :: bool
  db_Prepare_ok :: bool
  db_Exec_ok :: "nat \<Rightarrow> bool"
  db_Commit :: commit_outcome
  db_now :: time
  db_gen_random_uuid :: "nat \<Rightarrow> string"

text \<open>The request that \<^verbatim>\<open>GetRecommendationsFromKarenai\<close> builds: a GET of the
  fixed URL with the two headers it sets.\<close>

definition karenai_request :: "string \<Rightarrow> request" where
  "karenai_request karenaiAPIKey =
     \<lparr>req_method = ''GET'', req_url = KARENAI_API_URL,
      req_header = [(''Authorization'', ''Bearer '' @ karenaiAPIKey),
                    (''Content-Type'', ''application/json'')]\<rparr>"

text \<open>\<^verbatim>\<open>GetRecommendationsFromKarenai\<close>. Besides its two results the model
  returns the requests it has sent, in order.\<close>

definition GetRecommendationsFromKarenai :: "world \<Rightarrow> (error + Stock list) \<times> request list" where
  "GetRecommendationsFromKarenai w =
     (let karenaiAPIKey = Getenv w ''KARENAI_API_KEY'' in
      if karenaiAPIKey = [] then (Inl (Errorf ''KARENAI_API_KEY no esta configurada'' None), [])
      else if \<not> http_NewRequest_ok w ''GET'' KARENAI_API_URL
      then (Inl (Errorf ''error al crear la solicitud HTTP a Karenai.click'' None), [])
      else
        let req = karenai_request karenaiAPIKey
        in case client_Do w req of
             RequestFailed \<Rightarrow>
               (Inl (Errorf ''error al realizar la solicitud HTTP a Karenai.click'' None), [req])
           | ReadFailed \<Rightarrow>
               (Inl (Errorf ''error al leer la respuesta de Karenai.click'' None), [req])
           | Response StatusCode body \<Rightarrow>
               if StatusCode \<noteq> 200
               then (Inl (Errorf ''Karenai.click API devolvio un estado de error'' None), [req])
               else (case json_Unmarshal_karenai w body of
                       None \<Rightarrow>
                         (Inl (Errorf ''error al decodificar la respuesta JSON de Karenai.click'' None),
                          [req])
                     | Some karenaiResp \<Rightarrow> (Inr (Items karenaiResp), [req])))"

text \<open>\<^verbatim>\<open>GetFinnhubMetricsAndQuote\<close>: the two blocks of the function, each
  updating the local \<^verbatim>\<open>finnhubData\<close>, then the final return.\<close>

definition metricURL :: "string \<Rightarrow> string \<Rightarrow> string" where
  "metricURL ticker key =
     FINNHUB_BASE_URL @ ''/stock/metric?symbol='' @ ticker @ ''&metricType=all&token='' @ key"

definition quoteURL :: "string \<Rightarrow> string \<Rightarrow> string" where
  "quoteURL ticker key = FINNHUB_BASE_URL @ ''/quote?symbol='' @ ticker @ ''&token='' @ key"

definition fetch_metrics :: "world \<Rightarrow> nat \<Rightarrow> string \<Rightarrow> string \<Rightarrow> FinnhubData \<Rightarrow> FinnhubData" where
  "fetch_metrics w i ticker key finnhubData =
     (case http_Get w i (metricURL ticker key) of
        RequestFailed \<Rightarrow>
          finnhubData\<lparr>fh_Error := Some (Errorf ''error al consultar metricas de Finnhub'' None)\<rparr>
      | ReadFailed \<Rightarrow>
          finnhubData\<lparr>fh_Error :=
            Some (Errorf ''error al leer el cuerpo de la respuesta de Finnhub metrics'' None)\<rparr>
      | Response StatusCode bodyMetrics \<Rightarrow>
          if StatusCode \<noteq> 200
          then finnhubData\<lparr>fh_Error :=
                 Some (Errorf ''Finnhub metricas API devolvio estado de error'' None)\<rparr>
          else (case json_Unmarshal_metric w bodyMetrics of
                  None \<Rightarrow>
                    finnhubData\<lparr>fh_Error :=
                      Some (Errorf ''error al decodificar JSON de metricas de Finnhub'' None)\<rparr>
                | Some metricData \<Rightarrow>
                    finnhubData
                      \<lparr>fh_PE_Ratio :=
                         (if PeExclExtraTTM metricData \<noteq> 0 then PeExclExtraTTM metricData
                          else PeRatio metricData),
                       fh_DividendYield :=
                         (if MetricDividendYield metricData \<noteq> 0 then MetricDividendYield metricData
                          else DividendYieldAlt metricData),
                       fh_MarketCapitalization := MarketCap metricData\<rparr>))"

definition fetch_quote :: "world \<Rightarrow> nat \<Rightarrow> string \<Rightarrow> string \<Rightarrow> FinnhubData \<Rightarrow> FinnhubData" where
  "fetch_quote w i ticker key finnhubData =
     (case http_Get w i (quoteURL ticker key) of
        RequestFailed \<Rightarrow>
          finnhubData\<lparr>fh_Error :=
            Some (Errorf ''error al consultar cotizacion de Finnhub'' (fh_Error finnhubData))\<rparr>
      | ReadFailed \<Rightarrow>
          finnhubData\<lparr>fh_Error :=
            Some (Errorf ''error al leer el cuerpo de la respuesta de Finnhub quote''
                    (fh_Error finnhubData))\<rparr>
      | Response StatusCode bodyQuote \<Rightarrow>
          if StatusCode \<noteq> 200
          then finnhubData\<lparr>fh_Error :=
                 Some (Errorf ''Finnhub cotizacion API devolvio estado de error''
                         (fh_Error finnhubData))\<rparr>
          else (case json_Unmarshal_quote w bodyQuote of
                  None \<Rightarrow>
                    finnhubData\<lparr>fh_Error :=
                      Some (Errorf ''error al decodificar JSON de cotizacion de Finnhub''
                              (fh_Error finnhubData))\<rparr>
                | Some quoteData \<Rightarrow>
                    (let finnhubData = finnhubData\<lparr>fh_CurrentPrice := QuoteCurrentPrice quoteData\<rparr>
                     in if Timestamp quoteData \<noteq> 0
                        then finnhubData\<lparr>fh_LatestTradingDay := time_Unix (Timestamp quoteData)\<rparr>
                        else finnhubData)))"

definition GetFinnhubMetricsAndQuote ::
  "world \<Rightarrow> nat \<Rightarrow> string \<Rightarrow> FinnhubData \<times> error option" where
  "GetFinnhubMetricsAndQuote w i ticker =
     (let finnhubAPIKey = Getenv w ''FINNHUB_API_KEY'' in
      if finnhubAPIKey = []
      then (zero_FinnhubData\<lparr>fh_Error := Some (Errorf ''FINNHUB_API_KEY no esta configurada'' None)\<rparr>,
            Some (Errorf ''FINNHUB_API_KEY no esta configurada'' None))
      else
        let finnhubData = zero_FinnhubData;
            finnhubData = fetch_metrics w i ticker finnhubAPIKey finnhubData;
            finnhubData = fetch_quote w i ticker finnhubAPIKey finnhubData
        in (finnhubData, fh_Error finnhubData))"

text \<open>\<^verbatim>\<open>GetAlphaAndLatestTradingDayFromAlphaVantage\<close>. The 15 second sleep
  before the request has no effect on the values. No branch assigns the field
  \<^verbatim>\<open>Alpha\<close> of \<^verbatim>\<open>avData\<close>.\<close>

definition alphaURL :: "string \<Rightarrow> string \<Rightarrow> string" where
  "alphaURL ticker key =
     ALPHA_VANTAGE_BASE_URL @ ''?function=GLOBAL_QUOTE&symbol='' @ ticker @ ''&apikey='' @ key"

definition parse_global_quote ::
  "world \<Rightarrow> (string \<times> json) list \<Rightarrow> AlphaVantageData \<Rightarrow> AlphaVantageData" where
  "parse_global_quote w avResponse avData =
     (case object_at avResponse ''Global Quote'' of
        Some globalQuote \<Rightarrow>
          (case string_at globalQuote ''07. latest trading day'' of
             Some ltDayStr \<Rightarrow>
               if ltDayStr \<noteq> []
               then (case time_Parse w ltDayStr of
                       None \<Rightarrow>
                         avData\<lparr>av_Error :=
                           Some (Errorf ''error al parsear 07. latest trading day'' None)\<rparr>
                     | Some parsedTime \<Rightarrow> avData\<lparr>av_LatestTradingDay := parsedTime\<rparr>)
               else avData
           | None \<Rightarrow> avData)
      | None \<Rightarrow>
          avData\<lparr>av_Error :=
            Some (Errorf ''Alpha Vantage API - Global Quote no encontrado en la respuesta'' None)\<rparr>)"

definition returning :: "AlphaVantageData \<Rightarrow> AlphaVantageData \<times> error option" where
  "returning avData = (avData, av_Error avData)"

definition GetAlphaAndLatestTradingDayFromAlphaVantage ::
  "world \<Rightarrow> nat \<Rightarrow> string \<Rightarrow> AlphaVantageData \<times> error option" where
  "GetAlphaAndLatestTradingDayFromAlphaVantage w i ticker =
     (let alphaVantageAPIKey = Getenv w ''ALPHA_VANTAGE_API_KEY'' in
      if alphaVantageAPIKey = []
      then (zero_AlphaVantageData
              \<lparr>av_Error := Some (Errorf ''ALPHA_VANTAGE_API_KEY no esta configurada'' None)\<rparr>,
            Some (Errorf ''ALPHA_VANTAGE_API_KEY no esta configurada'' None))
      else
        let avData = zero_AlphaVantageData in
        case http_Get w i (alphaURL ticker alphaVantageAPIKey) of
          RequestFailed \<Rightarrow>
            returning (avData\<lparr>av_Error := Some (Errorf ''error al consultar Alpha Vantage'' None)\<rparr>)
        | ReadFailed \<Rightarrow>
            returning (avData\<lparr>av_Error :=
              Some (Errorf ''error al leer el cuerpo de la respuesta de Alpha Vantage'' None)\<rparr>)
        | Response StatusCode bodyBytes \<Rightarrow>
            if StatusCode \<noteq> 200
            then returning (avData\<lparr>av_Error :=
                   Some (Errorf ''Alpha Vantage API devolvio estado de error'' None)\<rparr>)
            else (case json_Unmarshal_object w bodyBytes of
                    None \<Rightarrow>
                      returning (avData\<lparr>av_Error :=
                        Some (Errorf ''error al decodificar respuesta JSON de Alpha Vantage'' None)\<rparr>)
                  | Some avResponse \<Rightarrow>
                      (case string_at avResponse ''Error Message'' of
                         Some errorMessage \<Rightarrow>
                           returning (avData\<lparr>av_Error :=
                             Some (Errorf ''Alpha Vantage API error'' None)\<rparr>)
                       | None \<Rightarrow>
                           (case string_at avResponse ''Note'' of
                              Some note \<Rightarrow>
                                returning (avData\<lparr>av_Error :=
                                  Some (Errorf ''Alpha Vantage API note/warning'' None)\<rparr>)
                            | None \<Rightarrow> returning (parse_global_quote w avResponse avData)))))"

section \<open>The storage layer (database/db.go)\<close>

text \<open>
  The table \<^verbatim>\<open>stocks\<close> has a unique key on \<^verbatim>\<open>ticker\<close>: it is a finite map from
  the ticker to the row, and a row has the shape of a \<^verbatim>\<open>models.Stock\<close>.
  The journal lists the calls that reach the database: a transaction begun,
  the statement prepared, one \<^verbatim>\<open>ExecContext\<close> per record (with the ticker and
  whether it succeeded), a call of \<^verbatim>\<open>tx.Commit()\<close>, and a \<^verbatim>\<open>tx.Rollback()\<close>
  of a transaction that is still open.
\<close>

type_synonym table = "string \<rightharpoonup> Stock"

datatype db_event = Begin | Prepare | Exec string bool | Commit | Rollback

record database =
  rows :: table
  journal :: "db_event list"

text \<open>The statement \<^verbatim>\<open>INSERT ... ON CONFLICT (ticker) DO UPDATE SET ...\<close>: a new
  ticker gets a fresh identifier and both timestamps; an existing one keeps its
  identifier and \<^verbatim>\<open>created_at\<close>, takes the fifteen submitted columns and a new
  \<^verbatim>\<open>updated_at\<close>.\<close>

definition upsert_row :: "world \<Rightarrow> nat \<Rightarrow> table \<Rightarrow> Stock \<Rightarrow> table" where
  "upsert_row w i t s =
     (case t (Ticker s) of
        None \<Rightarrow>
          t(Ticker s \<mapsto> s\<lparr>ID := db_gen_random_uuid w i, CreatedAt := db_now w, UpdatedAt := db_now w\<rparr>)
      | Some old \<Rightarrow>
          t(Ticker s \<mapsto> s\<lparr>ID := ID old, CreatedAt := CreatedAt old, UpdatedAt := db_now w\<rparr>))"

text \<open>The loop \<^verbatim>\<open>for _, s := range stocks\<close> of \<^verbatim>\<open>UpsertStocks\<close>, on the rows as
  the open transaction sees them; it returns at the first failing statement.\<close>

fun exec_stocks :: "world \<Rightarrow> nat \<Rightarrow> table \<Rightarrow> Stock list \<Rightarrow> (error + table) \<times> db_event list" where
  "exec_stocks w i tx [] = (Inr tx, [])"
| "exec_stocks w i tx (s # rest) =
     (if db_Exec_ok w i
      then (let (r, evs) = exec_stocks w (Suc i) (upsert_row w i tx s) rest
            in (r, Exec (Ticker s) True # evs))
      else (Inl (Errorf ''error al ejecutar upsert para el ticker'' None),
            [Exec (Ticker s) False]))"

text \<open>\<^verbatim>\<open>UpsertStocks\<close>. The deferred \<^verbatim>\<open>tx.Rollback()\<close> runs on every return after
  the transaction has begun. Once \<^verbatim>\<open>tx.Commit()\<close> has been called, with or
  without success, it finds the transaction done (\<^verbatim>\<open>sql.ErrTxDone\<close>) and asks
  the database nothing. A commit that the database refuses leaves the rows as
  they were; a commit that is applied but whose answer is lost installs the
  rows of the transaction and still returns an error.\<close>

definition UpsertStocks :: "world \<Rightarrow> database \<Rightarrow> Stock list \<Rightarrow> error option \<times> database" where
  "UpsertStocks w db stocks =
     (if length stocks = 0 then (None, db)
      else if \<not> db_BeginTx_ok w
      then (Some (Errorf ''error al iniciar la transaccion para upsert'' None), db)
      else if \<not> db_Prepare_ok w
      then (Some (Errorf ''error al preparar la declaracion upsert'' None),
            db\<lparr>journal := journal db @ [Begin, Rollback]\<rparr>)
      else (case exec_stocks w 0 (rows db) stocks of
              (Inl err, evs) \<Rightarrow>
                (Some err, db\<lparr>journal := journal db @ [Begin, Prepare] @ evs @ [Rollback]\<rparr>)
            | (Inr tx, evs) \<Rightarrow>
                (case db_Commit w of
                   Committed \<Rightarrow>
                     (None,
                      \<lparr>rows = tx, journal = journal db @ [Begin, Prepare] @ evs @ [Commit]\<rparr>)
                 | NotCommitted \<Rightarrow>
                     (Some (Errorf ''error al confirmar la transaccion upsert'' None),
                      db\<lparr>journal := journal db @ [Begin, Prepare] @ evs @ [Commit]\<rparr>)
                 | CommittedUnreported \<Rightarrow>
                     (Some (Errorf ''error al confirmar la transaccion upsert'' None),
                      \<lparr>rows = tx, journal = journal db @ [Begin, Prepare] @ evs @ [Commit]\<rparr>))))"

section \<open>The enrichment cycle (cron/enricher.go)\<close>

text \<open>The body of the loop of \<^verbatim>\<open>fetchAndEnrichStocks\<close>, in its three steps:
  the assignments after the Finnhub call, the assignment after the Alpha
  Vantage call, then the score and the time stamp.\<close>

definition assign_finnhub :: "Stock \<Rightarrow> FinnhubData \<times> error option \<Rightarrow> Stock" where
  "assign_finnhub stock r =
     (case r of (finnhubMetrics, err) \<Rightarrow>
        if err \<noteq> None
        then stock\<lparr>PERatio := \<lparr>Float64 = 0, Valid = False\<rparr>,
                   DividendYield := \<lparr>Float64 = 0, Valid = False\<rparr>,
                   MarketCapitalization := \<lparr>Float64 = 0, Valid = False\<rparr>,
                   CurrentPrice := 0,
                   LatestTradingDay := \<lparr>Time = zero_time, ValidT = False\<rparr>\<rparr>
        else
          let stock = stock\<lparr>PERatio := \<lparr>Float64 = fh_PE_Ratio finnhubMetrics, Valid = True\<rparr>,
                            DividendYield := \<lparr>Float64 = fh_DividendYield finnhubMetrics, Valid = True\<rparr>,
                            MarketCapitalization :=
                              \<lparr>Float64 = fh_MarketCapitalization finnhubMetrics, Valid = True\<rparr>,
                            CurrentPrice := fh_CurrentPrice finnhubMetrics\<rparr>
          in if \<not> IsZero (fh_LatestTradingDay finnhubMetrics)
             then stock\<lparr>LatestTradingDay :=
                          \<lparr>Time = fh_LatestTradingDay finnhubMetrics, ValidT = True\<rparr>\<rparr>
             else stock\<lparr>LatestTradingDay := \<lparr>Time = zero_time, ValidT = False\<rparr>\<rparr>)"

definition assign_alpha :: "Stock \<Rightarrow> AlphaVantageData \<times> error option \<Rightarrow> Stock" where
  "assign_alpha stock r =
     (case r of (alphaVantageData, err) \<Rightarrow>
        if err \<noteq> None
        then stock\<lparr>Alpha := \<lparr>Float64 = 0, Valid = False\<rparr>\<rparr>
        else stock\<lparr>Alpha := \<lparr>Float64 = av_Alpha alphaVantageData, Valid = True\<rparr>\<rparr>)"

definition enrich_ticker :: "world \<Rightarrow> nat \<Rightarrow> Stock \<Rightarrow> Stock" where
  "enrich_ticker w i stock =
     (let ticker = Ticker stock;
          stock = assign_finnhub stock (GetFinnhubMetricsAndQuote w i ticker);
          stock = assign_alpha stock (GetAlphaAndLatestTradingDayFromAlphaVantage w i ticker);
          scoreVal = CalculateRecommendationScore (float64_mul w) stock;
          stock = stock\<lparr>RecommendationScore := \<lparr>Float64 = scoreVal, Valid = True\<rparr>\<rparr>;
          stock = stock\<lparr>UpdatedAt := time_Now w i\<rparr>
      in stock)"

text \<open>The calls a cycle makes to the three clients and to the storage port.\<close>

datatype call =
    CallKarenai
  | CallFinnhub string
  | CallAlphaVantage string
  | CallUpsertStocks "Stock list"

text \<open>The loop \<^verbatim>\<open>for i := range stocksFromKarenai\<close>: it rewrites the slice
  element by element and makes two client calls per element.\<close>

fun enrich_loop :: "world \<Rightarrow> nat \<Rightarrow> Stock list \<Rightarrow> Stock list \<times> call list" where
  "enrich_loop w i [] = ([], [])"
| "enrich_loop w i (stock # rest) =
     (let (rest', cs) = enrich_loop w (Suc i) rest
      in (enrich_ticker w i stock # rest',
          [CallFinnhub (Ticker stock), CallAlphaVantage (Ticker stock)] @ cs))"

record state =
  calls :: "call list"
  store :: database

definition fetchAndEnrichStocks :: "world \<Rightarrow> state \<Rightarrow> state" where
  "fetchAndEnrichStocks w st =
     (let st = st\<lparr>calls := calls st @ [CallKarenai]\<rparr> in
      case fst (GetRecommendationsFromKarenai w) of
        Inl err \<Rightarrow> st
      | Inr stocksFromKarenai \<Rightarrow>
          (let (stocks, cs) = enrich_loop w 0 stocksFromKarenai;
               st = st\<lparr>calls := calls st @ cs\<rparr>;
               (err, db) = UpsertStocks w (store st) stocks
           in st\<lparr>calls := calls st @ [CallUpsertStocks stocks], store := db\<rparr>))"

section \<open>Concrete runs\<close>

text \<open>Two rated stocks and a few environments, used to evaluate the model.\<close>

definition aapl :: Stock where
  "aapl = zero_Stock\<lparr>Ticker := ''AAPL'', Company := ''Apple'', Brokerage := ''BrokerX'',
            Action := ''Buy'', RatingFrom := ''Hold'', RatingTo := ''Buy'',
            TargetFrom := NewNullFloat64 210, TargetTo := NewNullFloat64 250\<rparr>"

definition msft :: Stock where
  "msft = zero_Stock\<lparr>Ticker := ''MSFT'', Company := ''Microsoft'', Brokerage := ''BrokerY'',
            Action := ''Hold'', RatingFrom := ''Buy'', RatingTo := ''Hold'',
            TargetTo := NewNullFloat64 205\<rparr>"

text \<open>Every credential is set and every request fails in transit. In the
  concrete runs the product of two numbers is the product of IEEE 754.\<close>

definition offline_world :: world where
  "offline_world =
     \<lparr>Getenv = (\<lambda>_. ''key''), http_NewRequest_ok = (\<lambda>_ _. True),
      client_Do = (\<lambda>_. RequestFailed), http_Get = (\<lambda>_ _. RequestFailed),
      json_Unmarshal_karenai = (\<lambda>_. None), json_Unmarshal_metric = (\<lambda>_. None),
      json_Unmarshal_quote = (\<lambda>_. None), json_Unmarshal_object = (\<lambda>_. None),
      time_Parse = (\<lambda>_. None), time_Now = (\<lambda>_. 1755532800),
      float64_mul = float64_product,
      db_BeginTx_ok = True, db_Prepare_ok = True, db_Exec_ok = (\<lambda>_. True),
      db_Commit = Committed, db_now = 1755532900,
      db_gen_random_uuid = (\<lambda>i. if i = 0 then ''id-0'' else ''id-1'')\<rparr>"

text \<open>The rating source answers 200 with the two stocks and a next-page
  token; Finnhub answers both calls for both tickers (with a zero preferred P/E
  and a zero alternate dividend yield); Alpha Vantage answers for MSFT only, and
  the request for AAPL fails.\<close>

definition sample_http_Get :: "nat \<Rightarrow> string \<Rightarrow> http_outcome" where
  "sample_http_Get i url =
     (if url = metricURL ''AAPL'' ''key'' \<or> url = metricURL ''MSFT'' ''key''
      then Response 200 ''{metric}''
      else if url = quoteURL ''AAPL'' ''key'' \<or> url = quoteURL ''MSFT'' ''key''
      then Response 200 ''{quote}''
      else if url = alphaURL ''MSFT'' ''key''
      then Response 200 ''{global quote}''
      else RequestFailed)"

definition sample_world :: world where
  "sample_world =
     \<lparr>Getenv = (\<lambda>_. ''key''), http_NewRequest_ok = (\<lambda>_ _. True),
      client_Do = (\<lambda>_. Response 200 ''{items}''),
      http_Get = sample_http_Get,
      json_Unmarshal_karenai =
        (\<lambda>b. if b = ''{items}'' then Some \<lparr>Items = [aapl, msft], NextPage = ''page-2''\<rparr> else None),
      json_Unmarshal_metric =
        (\<lambda>b. if b = ''{metric}''
             then Some \<lparr>PeExclExtraTTM = 0, PeRatio = 28.5, MetricDividendYield = 0.5,
                        DividendYieldAlt = 0, MarketCap = 3000000\<rparr>
             else None),
      json_Unmarshal_quote =
        (\<lambda>b. if b = ''{quote}'' then Some \<lparr>QuoteCurrentPrice = 200, Timestamp = 1755532800\<rparr>
             else None),
      json_Unmarshal_object =
        (\<lambda>b. if b = ''{global quote}''
             then Some [(''Global Quote'',
                         JObject [(''07. latest trading day'', JString ''2025-08-15'')])]
             else None),
      time_Parse = (\<lambda>s. if s = ''2025-08-15'' then Some 1755216000 else None),
      time_Now = (\<lambda>i. 1755532800 + 15 * int i),
      float64_mul = float64_product,
      db_BeginTx_ok = True, db_Prepare_ok = True, db_Exec_ok = (\<lambda>_. True),
      db_Commit = Committed, db_now = 1755532900,
      db_gen_random_uuid = (\<lambda>i. if i = 0 then ''id-0'' else ''id-1'')\<rparr>"

text \<open>As \<open>sample_world\<close>, with the quote endpoint of Finnhub down.\<close>

definition quote_outage_http_Get :: "nat \<Rightarrow> string \<Rightarrow> http_outcome" where
  "quote_outage_http_Get i url =
     (if url = quoteURL ''AAPL'' ''key'' \<or> url = quoteURL ''MSFT'' ''key''
      then RequestFailed else sample_http_Get i url)"

definition quote_outage_world :: world where
  "quote_outage_world = sample_world\<lparr>http_Get := quote_outage_http_Get\<rparr>"

text \<open>As \<open>sample_world\<close>, with the rating source answering 201 Created.\<close>

definition created_world :: world where
  "created_world = sample_world\<lparr>client_Do := (\<lambda>_. Response 201 ''{items}'')\<rparr>"

text \<open>As \<open>sample_world\<close>, with the second statement of a transaction failing.\<close>

definition second_exec_fails_world :: world where
  "second_exec_fails_world = sample_world\<lparr>db_Exec_ok := (\<lambda>i. i \<noteq> 1)\<rparr>"

text \<open>As \<open>sample_world\<close>, with the database refusing the commit.\<close>

definition commit_refused_world :: world where
  "commit_refused_world = sample_world\<lparr>db_Commit := NotCommitted\<rparr>"

definition empty_database :: database where
  "empty_database = \<lparr>rows = Map.empty, journal = []\<rparr>"

section \<open>The error conditions of the rating client, as the specification words them\<close>

text \<open>The specification's reading of when the rating client fails: the
  credential is unset, the request fails, the status is outside 200..299, or
  the payload does not decode.\<close>

definition karenai_fails_spec :: "world \<Rightarrow> bool" where
  "karenai_fails_spec w =
     (Getenv w ''KARENAI_API_KEY'' = []
      \<or> (if http_NewRequest_ok w ''GET'' KARENAI_API_URL
          then (case client_Do w (karenai_request (Getenv w ''KARENAI_API_KEY'')) of
                  RequestFailed \<Rightarrow> True
                | ReadFailed \<Rightarrow> True
                | Response StatusCode body \<Rightarrow>
                    (if 200 \<le> StatusCode \<and> StatusCode < 300
                     then json_Unmarshal_karenai w body = None else True))
          else True))"

section \<open>Auxiliary notions for the statements\<close>

text \<open>Whether each of the two blocks of \<^verbatim>\<open>GetFinnhubMetricsAndQuote\<close> leaves
  the error unset when it starts from fresh data.\<close>

definition metrics_fetch_ok :: "world \<Rightarrow> nat \<Rightarrow> string \<Rightarrow> bool" where
  "metrics_fetch_ok w i ticker =
     (fh_Error (fetch_metrics w i ticker (Getenv w ''FINNHUB_API_KEY'') zero_FinnhubData) = None)"

definition quote_fetch_ok :: "world \<Rightarrow> nat \<Rightarrow> string \<Rightarrow> bool" where
  "quote_fetch_ok w i ticker =
     (fh_Error (fetch_quote w i ticker (Getenv w ''FINNHUB_API_KEY'') zero_FinnhubData) = None)"

text \<open>A JSON number literal starts with a minus sign or a digit.\<close>

definition begins_number :: "string \<Rightarrow> bool" where
  "begins_number b =
     (case b of [] \<Rightarrow> False
      | c # _ \<Rightarrow> c = CHR ''-'' \<or> (48 \<le> (of_char c :: nat) \<and> (of_char c :: nat) \<le> 57))"

text \<open>The zero value of \<^verbatim>\<open>NullFloat64\<close>, as declared by \<^verbatim>\<open>var nf NullFloat64\<close>.\<close>

definition zero_NullFloat64 :: "float64 NullFloat64" where
  "zero_NullFloat64 = \<lparr>Float64 = Finite 0, Valid = False\<rparr>"

text \<open>A stand-in for the two conversions of \<^verbatim>\<open>strconv\<close> that knows the two
  numbers 123.45 and 0, for the concrete runs.\<close>

definition sample_format :: "real \<Rightarrow> string" where
  "sample_format x = (if x = 123.45 then ''123.45'' else ''0'')"

definition sample_parse :: "string \<Rightarrow> real option" where
  "sample_parse b =
     (if b = ''123.45'' then Some 123.45 else if b = ''0'' then Some 0 else None)"

section \<open>Basic facts\<close>

lemmas sample_defs = sample_world_def sample_http_Get_def metricURL_def quoteURL_def
  alphaURL_def FINNHUB_BASE_URL_def ALPHA_VANTAGE_BASE_URL_def KARENAI_API_URL_def

lemma assign_finnhub_error:
  "assign_finnhub s (d, Some e) =
     s\<lparr>PERatio := null_float, DividendYield := null_float,
       MarketCapitalization := null_float, CurrentPrice := 0,
       LatestTradingDay := null_time\<rparr>"
  by (simp add: assign_finnhub_def null_float_def null_time_def)

lemma assign_alpha_fields:
  "ID (assign_alpha s r) = ID s" "Ticker (assign_alpha s r) = Ticker s"
  "Company (assign_alpha s r) = Company s" "Brokerage (assign_alpha s r) = Brokerage s"
  "Action (assign_alpha s r) = Action s" "RatingFrom (assign_alpha s r) = RatingFrom s"
  "RatingTo (assign_alpha s r) = RatingTo s" "TargetFrom (assign_alpha s r) = TargetFrom s"
  "TargetTo (assign_alpha s r) = TargetTo s" "CurrentPrice (assign_alpha s r) = CurrentPrice s"
  "PERatio (assign_alpha s r) = PERatio s" "DividendYield (assign_alpha s r) = DividendYield s"
  "MarketCapitalization (assign_alpha s r) = MarketCapitalization s"
  "LatestTradingDay (assign_alpha s r) = LatestTradingDay s"
  "RecommendationScore (assign_alpha s r) = RecommendationScore s"
  "CreatedAt (assign_alpha s r) = CreatedAt s" "UpdatedAt (assign_alpha s r) = UpdatedAt s"
  by (cases r; simp add: assign_alpha_def)+

lemma enrich_ticker_steps:
  "enrich_ticker w i s =
     (let stock = assign_alpha (assign_finnhub s (GetFinnhubMetricsAndQuote w i (Ticker s)))
                    (GetAlphaAndLatestTradingDayFromAlphaVantage w i (Ticker s))
      in stock\<lparr>RecommendationScore :=
                 \<lparr>Float64 = CalculateRecommendationScore (float64_mul w) stock, Valid = True\<rparr>,
               UpdatedAt := time_Now w i\<rparr>)"
  by (simp add: enrich_ticker_def Let_def)

lemma fetch_quote_keeps_metrics:
  "fh_PE_Ratio (fetch_quote w i t k d) = fh_PE_Ratio d"
  "fh_DividendYield (fetch_quote w i t k d) = fh_DividendYield d"
  "fh_MarketCapitalization (fetch_quote w i t k d) = fh_MarketCapitalization d"
  by (simp_all add: fetch_quote_def Let_def split: http_outcome.splits option.splits)

lemma fetch_quote_error:
  "(fh_Error (fetch_quote w i t k d) = None) =
     (fh_Error d = None \<and> fh_Error (fetch_quote w i t k zero_FinnhubData) = None)"
  by (simp add: fetch_quote_def Let_def zero_FinnhubData_def
        split: http_outcome.splits option.splits)

lemma fetch_metrics_keeps_quote:
  "fh_CurrentPrice (fetch_metrics w i t k d) = fh_CurrentPrice d"
  "fh_LatestTradingDay (fetch_metrics w i t k d) = fh_LatestTradingDay d"
  by (simp_all add: fetch_metrics_def Let_def split: http_outcome.splits option.splits)

lemma fetch_quote_fields:
  "fh_CurrentPrice d = fh_CurrentPrice d' \<Longrightarrow>
     fh_CurrentPrice (fetch_quote w i t k d) = fh_CurrentPrice (fetch_quote w i t k d')"
  "fh_LatestTradingDay d = fh_LatestTradingDay d' \<Longrightarrow>
     fh_LatestTradingDay (fetch_quote w i t k d) = fh_LatestTradingDay (fetch_quote w i t k d')"
  by (simp_all add: fetch_quote_def Let_def split: http_outcome.splits option.splits)

lemma av_Alpha_never_assigned:
  "av_Alpha (fst (GetAlphaAndLatestTradingDayFromAlphaVantage w i ticker)) = 0"
  by (simp add: GetAlphaAndLatestTradingDayFromAlphaVantage_def Let_def returning_def
        parse_global_quote_def zero_AlphaVantageData_def
        split: http_outcome.splits option.splits)


lemma leading_rune_le: "leading_rune runes s \<le> length s"
proof (cases "filter (\<lambda>r. take (length r) s = r) runes")
  case Nil
  then show ?thesis by (simp add: leading_rune_def)
next
  case (Cons r rs)
  then have "r \<in> set (filter (\<lambda>r. take (length r) s = r) runes)" by simp
  then have "take (length r) s = r" by simp
  then have "length r \<le> length s"
    by (metis length_take min.cobounded1)
  then show ?thesis using Cons by (simp add: leading_rune_def)
qed

lemma leading_rune_bytes:
  assumes "0 < leading_rune runes s"
  shows "set (take (leading_rune runes s) s) \<subseteq> set (concat runes)"
proof (cases "filter (\<lambda>r. take (length r) s = r) runes")
  case Nil
  then show ?thesis using assms by (simp add: leading_rune_def)
next
  case (Cons r rs)
  then have "r \<in> set (filter (\<lambda>r. take (length r) s = r) runes)" by simp
  then have r: "r \<in> set runes" "take (length r) s = r" by simp_all
  have "leading_rune runes s = length r" using Cons by (simp add: leading_rune_def)
  then show ?thesis using r by auto
qed

lemma trim_runes_keeps_last:
  assumes "c \<notin> set (concat runes)"
  shows "\<exists>ys. trim_runes runes (xs @ [c]) = ys @ [c]"
proof (induction xs rule: length_induct)
  case (1 xs)
  let ?n = "leading_rune runes (xs @ [c])"
  show ?case
  proof (cases "?n = 0")
    case True
    then show ?thesis by (simp add: trim_runes.simps [of runes "xs @ [c]"])
  next
    case False
    then have pos: "0 < ?n" by simp
    have le: "?n \<le> length xs"
    proof (rule ccontr)
      assume "\<not> ?n \<le> length xs"
      then have "?n = Suc (length xs)"
        using leading_rune_le [of runes "xs @ [c]"] by simp
      then have "take ?n (xs @ [c]) = xs @ [c]" by simp
      then have "c \<in> set (take ?n (xs @ [c]))" by simp
      then show False using leading_rune_bytes [OF pos] assms by blast
    qed
    have d: "drop ?n (xs @ [c]) = drop ?n xs @ [c]"
      using le by simp
    have "length (drop ?n xs) < length xs"
      using pos le by simp
    then obtain ys where "trim_runes runes (drop ?n xs @ [c]) = ys @ [c]"
      using "1.IH" by blast
    then show ?thesis
      using False d by (simp add: trim_runes.simps [of runes "xs @ [c]"])
  qed
qed

lemma trim_runes_keeps_head:
  assumes "c \<notin> set (concat runes)"
  shows "trim_runes runes (c # rest) = c # rest"
proof -
  have "leading_rune runes (c # rest) = 0"
  proof (rule ccontr)
    assume "leading_rune runes (c # rest) \<noteq> 0"
    then have pos: "0 < leading_rune runes (c # rest)" by simp
    then have "c \<in> set (take (leading_rune runes (c # rest)) (c # rest))"
      by (cases "leading_rune runes (c # rest)") simp_all
    then show False using leading_rune_bytes [OF pos] assms by blast
  qed
  then show ?thesis by (simp add: trim_runes.simps [of runes "c # rest"])
qed

lemma TrimSpace_keeps_head:
  assumes "c \<notin> set (concat white_space_runes)"
  shows "\<exists>rest'. TrimSpace (c # rest) = c # rest'"
proof -
  have r: "c \<notin> set (concat (map rev white_space_runes))"
    using assms by (simp add: set_concat)
  obtain ys where "trim_runes (map rev white_space_runes) (rev rest @ [c]) = ys @ [c]"
    using trim_runes_keeps_last [OF r] by blast
  then show ?thesis
    using trim_runes_keeps_head [OF assms]
    by (simp add: TrimSpace_def TrimLeft_def TrimRight_def)
qed

lemma number_head_facts:
  assumes "c = CHR ''-'' \<or> (48 \<le> (of_char c :: nat) \<and> (of_char c :: nat) \<le> 57)"
  shows "c \<notin> set (concat white_space_runes)" and "c \<noteq> CHR ''n''" and "c \<noteq> CHR 0x22"
    and "toLower_char c = c"
  using assms by (auto simp: white_space_runes_def toLower_char_def)

lemma number_text_not_sentinel:
  assumes "begins_number b"
  shows \<open>TrimSpace b \<noteq> ''null'' \<and> TrimSpace b \<noteq> '''' \<and> TrimSpace b \<noteq> ''""''
         \<and> ToLower (TrimSpace b) \<noteq> ''"n/a"''\<close>
proof -
  obtain c rest where b: "b = c # rest"
    and c: "c = CHR ''-'' \<or> (48 \<le> (of_char c :: nat) \<and> (of_char c :: nat) \<le> 57)"
    using assms by (auto simp: begins_number_def split: list.splits)
  obtain rest' where t: "TrimSpace b = c # rest'"
    using TrimSpace_keeps_head [OF number_head_facts(1) [OF c]] b by blast
  show ?thesis
    using t number_head_facts(2,3,4) [OF c] by (auto simp: ToLower_def)
qed

lemma UnmarshalJSON_number:
  assumes "begins_number b" and "parse b = Some y"
  shows "UnmarshalJSON parse nf b = (None, \<lparr>Float64 = Finite y, Valid = True\<rparr>)"
  using number_text_not_sentinel [OF assms(1)] assms(2)
  by (simp add: UnmarshalJSON_def json_Unmarshal_def Let_def)

lemma UnmarshalJSON_absent:
  assumes \<open>TrimSpace d = ''null'' \<or> TrimSpace d = '''' \<or> TrimSpace d = ''""''
            \<or> ToLower (TrimSpace d) = ''"n/a"''\<close>
  shows "UnmarshalJSON parse nf d = (None, nf\<lparr>Valid := False\<rparr>)"
  using assms by (simp add: UnmarshalJSON_def Let_def)

lemma MarshalJSON_cases:
  "MarshalJSON format v =
     (if \<not> Valid v then Inr ''null''
      else case Float64 v of
             Finite x \<Rightarrow> Inr (format x)
           | _ \<Rightarrow> Inl (Errorf ''json: unsupported value'' None))"
  by (simp add: MarshalJSON_def json_Marshal_def split: float64.splits)

lemma exec_stocks_ok_iff:
  "isl (fst (exec_stocks w i tx stocks)) = (\<exists>j < length stocks. \<not> db_Exec_ok w (i + j))"
proof (induction stocks arbitrary: i tx)
  case Nil
  then show ?case by simp
next
  case (Cons s rest)
  show ?case
  proof (cases "db_Exec_ok w i")
    case False
    then show ?thesis by (auto intro: exI [of _ 0])
  next
    case True
    have "(\<exists>j < length (s # rest). \<not> db_Exec_ok w (i + j))
            = (\<exists>j < length rest. \<not> db_Exec_ok w (Suc i + j))"
      using True by (auto simp: less_Suc_eq_0_disj)
    then show ?thesis
      using True Cons.IH [of "Suc i" "upsert_row w i tx s"]
      by (simp add: split_def Let_def)
  qed
qed

lemma dom_upsert_row: "dom (upsert_row w i t s) = insert (Ticker s) (dom t)"
  by (simp add: upsert_row_def split: option.splits)

lemma exec_stocks_success:
  "fst (exec_stocks w i tx stocks) = Inr tx' \<Longrightarrow>
     snd (exec_stocks w i tx stocks) = map (\<lambda>s. Exec (Ticker s) True) stocks
   \<and> dom tx' = dom tx \<union> Ticker ` set stocks"
proof (induction stocks arbitrary: i tx)
  case Nil
  then show ?case by simp
next
  case (Cons s rest)
  then show ?case
    by (auto simp: split_def Let_def dom_upsert_row split: if_splits)
qed

lemma exec_stocks_events:
  "Commit \<notin> set (snd (exec_stocks w i tx stocks))
   \<and> Begin \<notin> set (snd (exec_stocks w i tx stocks))"
  by (induction stocks arbitrary: i tx) (auto simp: split_def Let_def)

lemma enrich_loop_Cons:
  "enrich_loop w i (s # rest) =
     (enrich_ticker w i s # fst (enrich_loop w (Suc i) rest),
      CallFinnhub (Ticker s) # CallAlphaVantage (Ticker s) # snd (enrich_loop w (Suc i) rest))"
  by (simp add: split_def Let_def)

lemma enrich_loop_length: "length (fst (enrich_loop w i stocks)) = length stocks"
  by (induction stocks arbitrary: i) (simp_all add: enrich_loop_Cons del: enrich_loop.simps(2))

lemma enrich_loop_nth:
  "j < length stocks \<Longrightarrow> fst (enrich_loop w i stocks) ! j = enrich_ticker w (i + j) (stocks ! j)"
proof (induction stocks arbitrary: i j)
  case Nil
  then show ?case by simp
next
  case (Cons s rest)
  show ?case
  proof (cases j)
    case 0
    then show ?thesis by (simp add: enrich_loop_Cons del: enrich_loop.simps(2))
  next
    case (Suc k)
    then have "k < length rest" using Cons.prems by simp
    then show ?thesis
      using Cons.IH [of k "Suc i"] Suc by (simp add: enrich_loop_Cons del: enrich_loop.simps(2))
  qed
qed

lemma enrich_loop_calls:
  "snd (enrich_loop w i stocks)
     = concat (map (\<lambda>s. [CallFinnhub (Ticker s), CallAlphaVantage (Ticker s)]) stocks)"
  by (induction stocks arbitrary: i) (simp_all add: enrich_loop_Cons del: enrich_loop.simps(2))

lemma assign_finnhub_Ticker: "Ticker (assign_finnhub s r) = Ticker s"
  by (cases r) (simp add: assign_finnhub_def Let_def)

lemma enrich_ticker_Ticker: "Ticker (enrich_ticker w i s) = Ticker s"
  by (simp add: enrich_ticker_steps Let_def assign_alpha_fields assign_finnhub_Ticker)

lemma score_ignores_alpha:
  "CalculateRecommendationScore m (assign_alpha s r) = CalculateRecommendationScore m s"
  by (simp add: CalculateRecommendationScore_def assign_alpha_fields)

lemma clients_other_iteration:
  assumes "j \<noteq> x"
  shows "GetFinnhubMetricsAndQuote (w\<lparr>http_Get := (http_Get w)(x := g)\<rparr>) j t
           = GetFinnhubMetricsAndQuote w j t"
    and "GetAlphaAndLatestTradingDayFromAlphaVantage (w\<lparr>http_Get := (http_Get w)(x := g)\<rparr>) j t
           = GetAlphaAndLatestTradingDayFromAlphaVantage w j t"
proof -
  have m: "fetch_metrics (w\<lparr>http_Get := (http_Get w)(x := g)\<rparr>) j t k d = fetch_metrics w j t k d"
    for k d using assms by (simp add: fetch_metrics_def split: http_outcome.splits option.splits)
  have q: "fetch_quote (w\<lparr>http_Get := (http_Get w)(x := g)\<rparr>) j t k d = fetch_quote w j t k d"
    for k d using assms by (simp add: fetch_quote_def split: http_outcome.splits option.splits)
  have p: "parse_global_quote (w\<lparr>http_Get := (http_Get w)(x := g)\<rparr>) a d = parse_global_quote w a d"
    for a d by (simp add: parse_global_quote_def split: option.splits)
  show "GetFinnhubMetricsAndQuote (w\<lparr>http_Get := (http_Get w)(x := g)\<rparr>) j t
           = GetFinnhubMetricsAndQuote w j t"
    by (simp add: GetFinnhubMetricsAndQuote_def m q Let_def)
  show "GetAlphaAndLatestTradingDayFromAlphaVantage (w\<lparr>http_Get := (http_Get w)(x := g)\<rparr>) j t
           = GetAlphaAndLatestTradingDayFromAlphaVantage w j t"
    using assms by (simp add: GetAlphaAndLatestTradingDayFromAlphaVantage_def p Let_def
          split: http_outcome.splits option.splits)
qed

lemma enrich_ticker_other_iteration:
  "j \<noteq> x \<Longrightarrow> enrich_ticker (w\<lparr>http_Get := (http_Get w)(x := g)\<rparr>) j s = enrich_ticker w j s"
  by (simp add: enrich_ticker_steps clients_other_iteration)

lemma fetch_calls:
  "fst (GetRecommendationsFromKarenai w) = Inr stocks \<Longrightarrow>
     calls (fetchAndEnrichStocks w st)
       = calls st @ [CallKarenai] @ snd (enrich_loop w 0 stocks)
           @ [CallUpsertStocks (fst (enrich_loop w 0 stocks))]"
  by (simp add: fetchAndEnrichStocks_def Let_def split_def)

lemma UpsertStocks_success_dom:
  assumes "fst (UpsertStocks w db stocks) = None"
  shows "dom (rows (snd (UpsertStocks w db stocks))) = dom (rows db) \<union> Ticker ` set stocks"
proof (cases "stocks = []")
  case True
  then show ?thesis by (simp add: UpsertStocks_def)
next
  case False
  let ?x = "exec_stocks w 0 (rows db) stocks"
  show ?thesis
  proof (cases "fst ?x")
    case (Inl e)
    then show ?thesis
      using assms False by (cases ?x) (auto simp: UpsertStocks_def split: if_splits)
  next
    case (Inr tx')
    then show ?thesis
      using assms False exec_stocks_success [OF Inr]
      by (cases ?x; cases "db_Commit w") (auto simp: UpsertStocks_def split: if_splits)
  qed
qed

lemma fetch_store:
  "fst (GetRecommendationsFromKarenai w) = Inr stocks \<Longrightarrow>
     store (fetchAndEnrichStocks w st)
       = snd (UpsertStocks w (store st) (fst (enrich_loop w 0 stocks)))"
  by (simp add: fetchAndEnrichStocks_def Let_def split_def)

lemma score_after_finnhub_error:
  "CalculateRecommendationScore m
     (s\<lparr>PERatio := a, DividendYield := b, MarketCapitalization := c, CurrentPrice := 0,
        LatestTradingDay := d\<rparr>)
   = (if Action s = ''Buy'' \<or> Action s = ''Strong Buy'' then 5 else 0)"
  by (simp add: CalculateRecommendationScore_def)

lemma float64_round_between:
  assumes "2 ^ k \<le> x" and "x < 2 ^ Suc k"
  shows "float64_round x = of_int (round_half_even (x * 2 ^ 52 / 2 ^ k)) * 2 ^ k / 2 ^ 52"
proof -
  have pos: "0 < x"
    using assms(1) by (smt (verit) zero_less_power)
  have "\<lfloor>log 2 x\<rfloor> = int k"
    using assms pos by (simp add: floor_log_eq_powr_iff powr_realpow powr_add)
  then have e: "max \<lfloor>log 2 \<bar>x\<bar>\<rfloor> (- 1022) = int k"
    using pos by simp
  have u: "2 powr (of_int (int k) - 52) = (2::real) ^ k / 2 ^ 52"
    by (simp add: powr_diff powr_realpow)
  have "float64_round x = of_int (round_half_even (x / (2 ^ k / 2 ^ 52))) * (2 ^ k / 2 ^ 52)"
    using pos unfolding float64_round_def Let_def e u by simp
  then show ?thesis by simp
qed

lemma product_100: "float64_product 100 float64_1_1 = 7740561859543041 / 70368744177664"
proof -
  have "float64_round (100 * float64_1_1)
          = of_int (round_half_even (100 * float64_1_1 * 2 ^ 52 / 2 ^ 6)) * 2 ^ 6 / 2 ^ 52"
    by (rule float64_round_between) (simp_all add: float64_1_1_def)
  also have "100 * float64_1_1 * 2 ^ 52 / 2 ^ 6 = 61924494876344325 / 8"
    by (simp add: float64_1_1_def)
  also have "round_half_even (61924494876344325 / 8) = 7740561859543041"
    by (simp add: round_half_even_def Let_def)
  finally show ?thesis by (simp add: float64_product_def)
qed

lemma product_50: "float64_product 50 float64_1_1 = 7740561859543041 / 140737488355328"
proof -
  have "float64_round (50 * float64_1_1)
          = of_int (round_half_even (50 * float64_1_1 * 2 ^ 52 / 2 ^ 5)) * 2 ^ 5 / 2 ^ 52"
    by (rule float64_round_between) (simp_all add: float64_1_1_def)
  also have "50 * float64_1_1 * 2 ^ 52 / 2 ^ 5 = 61924494876344325 / 8"
    by (simp add: float64_1_1_def)
  also have "round_half_even (61924494876344325 / 8) = 7740561859543041"
    by (simp add: round_half_even_def Let_def)
  finally show ?thesis by (simp add: float64_product_def)
qed

section \<open>Claims about the score\<close>

text \<open>
  C1. For every stock record the recommendation score is the sum of two
  contributions: 5 exactly when the action is the string "Buy" or the string
  "Strong Buy" (compared byte for byte, so "buy" earns nothing), plus 3 exactly
  when the current price is positive, the new target is present and the target
  exceeds the \<^verbatim>\<open>float64\<close> product of the current price and 1.1. With the
  product of IEEE 754 the listed examples evaluate to 8, 8, 3, 5, 5, 5 and 3.
  The product of 100 and 1.1 is the \<^verbatim>\<open>float64\<close> just above 110: a target of
  exactly that number does not exceed it and earns nothing.
\<close>

theorem score_is_sum_of_two_contributions:
  "(CalculateRecommendationScore m s =
      (if Action s = ''Buy'' \<or> Action s = ''Strong Buy'' then 5 else 0)
    + (if 0 < CurrentPrice s \<and> Valid (TargetTo s)
          \<and> m (CurrentPrice s) float64_1_1 < Float64 (TargetTo s) then 3 else 0))
   \<and> CalculateRecommendationScore float64_product
        (zero_Stock\<lparr>Action := ''Buy'', CurrentPrice := 100, TargetTo := NewNullFloat64 120\<rparr>) = 8
   \<and> CalculateRecommendationScore float64_product
        (zero_Stock\<lparr>Action := ''Strong Buy'', CurrentPrice := 50, TargetTo := NewNullFloat64 60\<rparr>)
        = 8
   \<and> CalculateRecommendationScore float64_product
        (zero_Stock\<lparr>Action := ''Hold'', CurrentPrice := 100, TargetTo := NewNullFloat64 120\<rparr>) = 3
   \<and> CalculateRecommendationScore float64_product
        (zero_Stock\<lparr>Action := ''Buy'', CurrentPrice := 100, TargetTo := NewNullFloat64 105\<rparr>) = 5
   \<and> CalculateRecommendationScore float64_product
        (zero_Stock\<lparr>Action := ''Buy'', CurrentPrice := 100, TargetTo := null_float\<rparr>) = 5
   \<and> CalculateRecommendationScore float64_product
        (zero_Stock\<lparr>Action := ''Buy'', CurrentPrice := 0, TargetTo := NewNullFloat64 10\<rparr>) = 5
   \<and> CalculateRecommendationScore float64_product
        (zero_Stock\<lparr>Action := ''Sell'', CurrentPrice := 100, TargetTo := NewNullFloat64 120\<rparr>) = 3
   \<and> CalculateRecommendationScore float64_product
        (zero_Stock\<lparr>Action := ''buy'', CurrentPrice := 100, TargetTo := NewNullFloat64 120\<rparr>) = 3
   \<and> float64_product 100 float64_1_1 = 7740561859543041 / 70368744177664
   \<and> CalculateRecommendationScore float64_product
        (zero_Stock\<lparr>Action := ''Buy'', CurrentPrice := 100,
                    TargetTo := NewNullFloat64 (7740561859543041 / 70368744177664)\<rparr>) = 5"
proof -
  have general: "CalculateRecommendationScore m s =
      (if Action s = ''Buy'' \<or> Action s = ''Strong Buy'' then 5 else 0)
    + (if 0 < CurrentPrice s \<and> Valid (TargetTo s)
          \<and> m (CurrentPrice s) float64_1_1 < Float64 (TargetTo s) then 3 else 0)" for m s
    by (simp add: CalculateRecommendationScore_def Let_def)
  show ?thesis
    by (simp add: general product_100 product_50 zero_Stock_def NewNullFloat64_def
          null_float_def)
qed

section \<open>Claims about the merge step\<close>

text \<open>
  C2. When the Finnhub client returns an error for a ticker, the assignments
  that follow write exactly five fields: the P/E ratio, the dividend yield, the
  market capitalisation and the latest trading day become absent, and the
  current price becomes 0. The record the loop produces for that ticker has
  these values, and when the Alpha Vantage client fails too its alpha is absent
  as well: of the fields the clients supply, the current price is the one that
  is given the number 0 where the others are marked absent. The score, which
  is derived afterwards from the action and the (now zero) price, is present as
  in every cycle.
\<close>

theorem finnhub_failure_blanks_metrics:
  assumes "snd (GetFinnhubMetricsAndQuote w i (Ticker s)) \<noteq> None"
  shows "assign_finnhub s (GetFinnhubMetricsAndQuote w i (Ticker s)) =
           s\<lparr>PERatio := null_float, DividendYield := null_float,
             MarketCapitalization := null_float, CurrentPrice := 0,
             LatestTradingDay := null_time\<rparr>
       \<and> \<not> Valid (PERatio (enrich_ticker w i s))
       \<and> \<not> Valid (DividendYield (enrich_ticker w i s))
       \<and> \<not> Valid (MarketCapitalization (enrich_ticker w i s))
       \<and> \<not> ValidT (LatestTradingDay (enrich_ticker w i s))
       \<and> CurrentPrice (enrich_ticker w i s) = 0
       \<and> (snd (GetAlphaAndLatestTradingDayFromAlphaVantage w i (Ticker s)) \<noteq> None
            \<longrightarrow> \<not> Valid (Alpha (enrich_ticker w i s)))
       \<and> RecommendationScore (enrich_ticker w i s)
           = \<lparr>Float64 = (if Action s = ''Buy'' \<or> Action s = ''Strong Buy'' then 5 else 0),
              Valid = True\<rparr>"
proof -
  obtain d e where r: "GetFinnhubMetricsAndQuote w i (Ticker s) = (d, Some e)"
    using assms by (cases "GetFinnhubMetricsAndQuote w i (Ticker s)") auto
  have blank: "assign_finnhub s (d, Some e) =
           s\<lparr>PERatio := null_float, DividendYield := null_float,
             MarketCapitalization := null_float, CurrentPrice := 0,
             LatestTradingDay := null_time\<rparr>"
    by (rule assign_finnhub_error)
  show ?thesis
    using r blank
    apply (simp add: enrich_ticker_steps Let_def assign_alpha_fields score_ignores_alpha
             score_after_finnhub_error)
    apply (simp add: null_float_def null_time_def)
    apply (cases "GetAlphaAndLatestTradingDayFromAlphaVantage w i (Ticker s)")
    apply (auto simp: assign_alpha_def)
    done
qed


theorem finnhub_failure_blanks_metrics_witness:
  "snd (GetFinnhubMetricsAndQuote offline_world 0 (Ticker aapl)) \<noteq> None
   \<and> snd (GetAlphaAndLatestTradingDayFromAlphaVantage offline_world 0 (Ticker aapl)) \<noteq> None
   \<and> CurrentPrice (enrich_ticker offline_world 0 aapl) = 0
   \<and> \<not> Valid (PERatio (enrich_ticker offline_world 0 aapl))
   \<and> \<not> Valid (DividendYield (enrich_ticker offline_world 0 aapl))
   \<and> \<not> Valid (MarketCapitalization (enrich_ticker offline_world 0 aapl))
   \<and> \<not> ValidT (LatestTradingDay (enrich_ticker offline_world 0 aapl))
   \<and> \<not> Valid (Alpha (enrich_ticker offline_world 0 aapl))"
proof -
  have a: "snd (GetFinnhubMetricsAndQuote offline_world 0 (Ticker aapl)) \<noteq> None"
    by (simp add: GetFinnhubMetricsAndQuote_def fetch_metrics_def fetch_quote_def
          offline_world_def Let_def)
  have b: "snd (GetAlphaAndLatestTradingDayFromAlphaVantage offline_world 0 (Ticker aapl)) \<noteq> None"
    by (simp add: GetAlphaAndLatestTradingDayFromAlphaVantage_def returning_def
          offline_world_def Let_def)
  show ?thesis
    using finnhub_failure_blanks_metrics [OF a] a b by simp
qed

text \<open>
  C3, as the specification states it, fails: with the metrics endpoint
  answering and the quote endpoint down, the client returns the three metrics
  it obtained (28.5, 0.5 and 3000000) together with an error, and the record
  for the ticker has none of them.
\<close>

theorem quote_outage_blanks_metrics_counterexample:
  "metrics_fetch_ok quote_outage_world 0 (Ticker aapl)
   \<and> \<not> quote_fetch_ok quote_outage_world 0 (Ticker aapl)
   \<and> fh_PE_Ratio (fst (GetFinnhubMetricsAndQuote quote_outage_world 0 (Ticker aapl))) = 28.5
   \<and> fh_DividendYield (fst (GetFinnhubMetricsAndQuote quote_outage_world 0 (Ticker aapl))) = 0.5
   \<and> fh_MarketCapitalization (fst (GetFinnhubMetricsAndQuote quote_outage_world 0 (Ticker aapl)))
        = 3000000
   \<and> \<not> Valid (PERatio (enrich_ticker quote_outage_world 0 aapl))
   \<and> \<not> Valid (DividendYield (enrich_ticker quote_outage_world 0 aapl))
   \<and> \<not> Valid (MarketCapitalization (enrich_ticker quote_outage_world 0 aapl))"
  by (simp add: metrics_fetch_ok_def quote_fetch_ok_def enrich_ticker_def
        GetFinnhubMetricsAndQuote_def fetch_metrics_def fetch_quote_def
        GetAlphaAndLatestTradingDayFromAlphaVantage_def returning_def
        assign_finnhub_def assign_alpha_def Let_def
        quote_outage_world_def quote_outage_http_Get_def sample_defs
        aapl_def zero_Stock_def zero_FinnhubData_def zero_AlphaVantageData_def)

text \<open>
  C3, amended. With the credential set, when one of the two sub-fetches of
  the Finnhub client succeeds and the other fails, the client returns the
  fields of both blocks as they left them (so the successfully fetched ones are
  in the returned data) together with an error; the merge step then treats the
  whole fetch as failed: the P/E ratio, the dividend yield, the market
  capitalisation and the latest trading day of the record are absent and its
  current price is 0.
\<close>

theorem partial_finnhub_data_is_discarded:
  assumes key: "Getenv w ''FINNHUB_API_KEY'' \<noteq> []"
      and one: "(metrics_fetch_ok w i (Ticker s) \<and> \<not> quote_fetch_ok w i (Ticker s))
              \<or> (\<not> metrics_fetch_ok w i (Ticker s) \<and> quote_fetch_ok w i (Ticker s))"
  shows "snd (GetFinnhubMetricsAndQuote w i (Ticker s)) \<noteq> None
       \<and> fh_PE_Ratio (fst (GetFinnhubMetricsAndQuote w i (Ticker s)))
           = fh_PE_Ratio (fetch_metrics w i (Ticker s) (Getenv w ''FINNHUB_API_KEY'') zero_FinnhubData)
       \<and> fh_DividendYield (fst (GetFinnhubMetricsAndQuote w i (Ticker s)))
           = fh_DividendYield (fetch_metrics w i (Ticker s) (Getenv w ''FINNHUB_API_KEY'') zero_FinnhubData)
       \<and> fh_MarketCapitalization (fst (GetFinnhubMetricsAndQuote w i (Ticker s)))
           = fh_MarketCapitalization
               (fetch_metrics w i (Ticker s) (Getenv w ''FINNHUB_API_KEY'') zero_FinnhubData)
       \<and> fh_CurrentPrice (fst (GetFinnhubMetricsAndQuote w i (Ticker s)))
           = fh_CurrentPrice (fetch_quote w i (Ticker s) (Getenv w ''FINNHUB_API_KEY'') zero_FinnhubData)
       \<and> fh_LatestTradingDay (fst (GetFinnhubMetricsAndQuote w i (Ticker s)))
           = fh_LatestTradingDay
               (fetch_quote w i (Ticker s) (Getenv w ''FINNHUB_API_KEY'') zero_FinnhubData)
       \<and> assign_finnhub s (GetFinnhubMetricsAndQuote w i (Ticker s)) =
           s\<lparr>PERatio := null_float, DividendYield := null_float,
             MarketCapitalization := null_float, CurrentPrice := 0,
             LatestTradingDay := null_time\<rparr>
       \<and> \<not> Valid (PERatio (enrich_ticker w i s))
       \<and> \<not> Valid (DividendYield (enrich_ticker w i s))
       \<and> \<not> Valid (MarketCapitalization (enrich_ticker w i s))
       \<and> \<not> ValidT (LatestTradingDay (enrich_ticker w i s))
       \<and> CurrentPrice (enrich_ticker w i s) = 0"
proof -
  let ?k = "Getenv w ''FINNHUB_API_KEY''"
  let ?m = "fetch_metrics w i (Ticker s) ?k zero_FinnhubData"
  let ?r = "GetFinnhubMetricsAndQuote w i (Ticker s)"
  have r: "?r = (fetch_quote w i (Ticker s) ?k ?m, fh_Error (fetch_quote w i (Ticker s) ?k ?m))"
    using key by (simp add: GetFinnhubMetricsAndQuote_def Let_def)
  have err: "fh_Error (fetch_quote w i (Ticker s) ?k ?m) \<noteq> None"
    using one fetch_quote_error [of w i "Ticker s" ?k ?m]
    by (auto simp: metrics_fetch_ok_def quote_fetch_ok_def)
  then obtain e where e: "fh_Error (fetch_quote w i (Ticker s) ?k ?m) = Some e"
    by auto
  have price: "fh_CurrentPrice (fetch_quote w i (Ticker s) ?k ?m)
                 = fh_CurrentPrice (fetch_quote w i (Ticker s) ?k zero_FinnhubData)"
    by (rule fetch_quote_fields) (simp add: fetch_metrics_keeps_quote)
  have day: "fh_LatestTradingDay (fetch_quote w i (Ticker s) ?k ?m)
                 = fh_LatestTradingDay (fetch_quote w i (Ticker s) ?k zero_FinnhubData)"
    by (rule fetch_quote_fields) (simp add: fetch_metrics_keeps_quote)
  have blank: "assign_finnhub s ?r =
           s\<lparr>PERatio := null_float, DividendYield := null_float,
             MarketCapitalization := null_float, CurrentPrice := 0,
             LatestTradingDay := null_time\<rparr>"
    using r e by (simp add: assign_finnhub_error)
  show ?thesis
    using err price day
    apply (simp only: enrich_ticker_steps blank)
    apply (simp add: r fetch_quote_keeps_metrics Let_def assign_alpha_fields
             null_float_def null_time_def)
    done
qed

theorem partial_finnhub_data_is_discarded_witness:
  "Getenv quote_outage_world ''FINNHUB_API_KEY'' \<noteq> []
   \<and> metrics_fetch_ok quote_outage_world 0 (Ticker aapl)
   \<and> \<not> quote_fetch_ok quote_outage_world 0 (Ticker aapl)
   \<and> fh_PE_Ratio (fst (GetFinnhubMetricsAndQuote quote_outage_world 0 (Ticker aapl))) = 28.5
   \<and> snd (GetFinnhubMetricsAndQuote quote_outage_world 0 (Ticker aapl)) \<noteq> None
   \<and> \<not> Valid (PERatio (enrich_ticker quote_outage_world 0 aapl))
   \<and> CurrentPrice (enrich_ticker quote_outage_world 0 aapl) = 0"
proof -
  have k: "Getenv quote_outage_world ''FINNHUB_API_KEY'' \<noteq> []"
    by (simp add: quote_outage_world_def sample_world_def)
  have g: "Getenv quote_outage_world ''FINNHUB_API_KEY'' = ''key''"
    by (simp add: quote_outage_world_def sample_world_def)
  have t: "Ticker aapl = ''AAPL''"
    by (simp add: aapl_def)
  have m: "fetch_metrics quote_outage_world 0 ''AAPL'' ''key'' zero_FinnhubData
             = zero_FinnhubData\<lparr>fh_PE_Ratio := 28.5, fh_DividendYield := 0.5,
                                 fh_MarketCapitalization := 3000000\<rparr>"
    by (simp add: fetch_metrics_def quote_outage_world_def quote_outage_http_Get_def sample_defs)
  have q: "fh_Error (fetch_quote quote_outage_world 0 ''AAPL'' ''key'' zero_FinnhubData) \<noteq> None"
    by (simp add: fetch_quote_def quote_outage_world_def quote_outage_http_Get_def sample_defs)
  have mo: "metrics_fetch_ok quote_outage_world 0 (Ticker aapl)"
    using m t g by (simp add: metrics_fetch_ok_def zero_FinnhubData_def)
  have qo: "\<not> quote_fetch_ok quote_outage_world 0 (Ticker aapl)"
    using q t g by (simp add: quote_fetch_ok_def)
  have one: "(metrics_fetch_ok quote_outage_world 0 (Ticker aapl)
                \<and> \<not> quote_fetch_ok quote_outage_world 0 (Ticker aapl))
           \<or> (\<not> metrics_fetch_ok quote_outage_world 0 (Ticker aapl)
                \<and> quote_fetch_ok quote_outage_world 0 (Ticker aapl))"
    using mo qo by simp
  show ?thesis
    using partial_finnhub_data_is_discarded [OF k one] k mo qo m t g by simp
qed

text \<open>
  C8. The assignment that follows the Alpha Vantage call changes the alpha
  field and nothing else. In particular the latest trading day of the record is
  what it was before: when it is absent and the Alpha Vantage data carries a
  date \<open>t\<close>, it stays absent; the latest trading day of the finished record is the
  one the Finnhub step left.
\<close>

theorem alpha_merge_changes_only_alpha:
  "assign_alpha s r = s\<lparr>Alpha := Alpha (assign_alpha s r)\<rparr>
   \<and> LatestTradingDay (assign_alpha s r) = LatestTradingDay s
   \<and> LatestTradingDay
        (assign_alpha (s\<lparr>LatestTradingDay := null_time\<rparr>) (d\<lparr>av_LatestTradingDay := t\<rparr>, None))
       = null_time
   \<and> LatestTradingDay (enrich_ticker w i s)
       = LatestTradingDay (assign_finnhub s (GetFinnhubMetricsAndQuote w i (Ticker s)))"
  by (cases r) (simp add: assign_alpha_def enrich_ticker_def Let_def split: prod.splits)

text \<open>
  C10. The Alpha Vantage client never assigns the alpha of the data it
  returns, so the value is Go's zero value 0. Whenever the client returns
  without an error, the alpha written into the record (any record) is present
  with value 0, and so is the alpha of the record the loop produces.
\<close>

theorem successful_alpha_fetch_stores_zero:
  assumes "snd (GetAlphaAndLatestTradingDayFromAlphaVantage w i (Ticker s)) = None"
  shows "av_Alpha (fst (GetAlphaAndLatestTradingDayFromAlphaVantage w i (Ticker s))) = 0
       \<and> Alpha (assign_alpha s' (GetAlphaAndLatestTradingDayFromAlphaVantage w i (Ticker s)))
           = \<lparr>Float64 = 0, Valid = True\<rparr>
       \<and> Alpha (enrich_ticker w i s) = \<lparr>Float64 = 0, Valid = True\<rparr>"
proof -
  obtain d where r: "GetAlphaAndLatestTradingDayFromAlphaVantage w i (Ticker s) = (d, None)"
    using assms by (cases "GetAlphaAndLatestTradingDayFromAlphaVantage w i (Ticker s)") auto
  have z: "av_Alpha d = 0"
    using av_Alpha_never_assigned [of w i "Ticker s"] r by simp
  show ?thesis
    using r z by (simp add: enrich_ticker_def Let_def assign_alpha_def)
qed

theorem successful_alpha_fetch_stores_zero_witness:
  "snd (GetAlphaAndLatestTradingDayFromAlphaVantage sample_world 1 (Ticker msft)) = None
   \<and> av_LatestTradingDay (fst (GetAlphaAndLatestTradingDayFromAlphaVantage sample_world 1 (Ticker msft)))
       = 1755216000
   \<and> Alpha (enrich_ticker sample_world 1 msft) = \<lparr>Float64 = 0, Valid = True\<rparr>"
proof -
  have r: "GetAlphaAndLatestTradingDayFromAlphaVantage sample_world 1 ''MSFT''
           = (\<lparr>av_Alpha = 0, av_LatestTradingDay = 1755216000, av_Error = None\<rparr>, None)"
    by (simp add: GetAlphaAndLatestTradingDayFromAlphaVantage_def sample_defs Let_def
          returning_def parse_global_quote_def string_at_def object_at_def
          zero_AlphaVantageData_def)
  have t: "Ticker msft = ''MSFT''"
    by (simp add: msft_def)
  have h: "snd (GetAlphaAndLatestTradingDayFromAlphaVantage sample_world 1 (Ticker msft)) = None"
    using r t by simp
  show ?thesis
    using successful_alpha_fetch_stores_zero [OF h] h r t by simp
qed

section \<open>Claims about the rating client and the cycle\<close>

text \<open>
  C4. When the rating client returns an error, the cycle makes the one call
  to the rating client and no other: no call to the Finnhub client, none to the
  Alpha Vantage client, none to \<^verbatim>\<open>UpsertStocks\<close>; the database is unchanged.
\<close>

theorem rating_failure_aborts_cycle:
  assumes "fst (GetRecommendationsFromKarenai w) = Inl e"
  shows "calls (fetchAndEnrichStocks w st) = calls st @ [CallKarenai]
       \<and> store (fetchAndEnrichStocks w st) = store st"
  using assms by (simp add: fetchAndEnrichStocks_def)

theorem rating_failure_aborts_cycle_witness:
  "fst (GetRecommendationsFromKarenai offline_world)
     = Inl (Errorf ''error al realizar la solicitud HTTP a Karenai.click'' None)
   \<and> calls (fetchAndEnrichStocks offline_world \<lparr>calls = [], store = empty_database\<rparr>)
       = [CallKarenai]
   \<and> store (fetchAndEnrichStocks offline_world \<lparr>calls = [], store = empty_database\<rparr>)
       = empty_database"
proof -
  have h: "fst (GetRecommendationsFromKarenai offline_world)
     = Inl (Errorf ''error al realizar la solicitud HTTP a Karenai.click'' None)"
    by (simp add: GetRecommendationsFromKarenai_def offline_world_def)
  show ?thesis
    using h rating_failure_aborts_cycle [OF h, of "\<lparr>calls = [], store = empty_database\<rparr>"]
    by simp
qed

text \<open>
  C6, as the specification states it, fails: a 201 answer with a payload that
  decodes is a 2xx answer, no listed condition holds, and the client returns
  an error.
\<close>

theorem rating_client_201_counterexample:
  "isl (fst (GetRecommendationsFromKarenai created_world))
   \<and> \<not> karenai_fails_spec created_world"
  by (simp add: GetRecommendationsFromKarenai_def karenai_fails_spec_def
        created_world_def sample_world_def)

text \<open>
  C6, amended. The rating client returns an error exactly when the credential
  is unset, the request cannot be built or sent, the body cannot be read, the
  status is not 200, or the payload of a 200 answer does not decode. When it
  succeeds, it has sent the one request to the fixed URL, received 200 with a
  body that decodes, and returns the items of that body; in every case it sends
  at most that one request, whatever the next-page token.
\<close>

theorem rating_client_error_conditions:
  "(isl (fst (GetRecommendationsFromKarenai w)) \<longleftrightarrow>
      (Getenv w ''KARENAI_API_KEY'' = []
       \<or> \<not> http_NewRequest_ok w ''GET'' KARENAI_API_URL
       \<or> client_Do w (karenai_request (Getenv w ''KARENAI_API_KEY'')) = RequestFailed
       \<or> client_Do w (karenai_request (Getenv w ''KARENAI_API_KEY'')) = ReadFailed
       \<or> (\<exists>st body. client_Do w (karenai_request (Getenv w ''KARENAI_API_KEY'')) = Response st body
             \<and> (st \<noteq> 200 \<or> json_Unmarshal_karenai w body = None))))
   \<and> (fst (GetRecommendationsFromKarenai w) = Inr items \<longrightarrow>
        (\<exists>body r. client_Do w (karenai_request (Getenv w ''KARENAI_API_KEY'')) = Response 200 body
            \<and> json_Unmarshal_karenai w body = Some r \<and> items = Items r
            \<and> snd (GetRecommendationsFromKarenai w)
                = [karenai_request (Getenv w ''KARENAI_API_KEY'')]))
   \<and> (snd (GetRecommendationsFromKarenai w) = []
      \<or> snd (GetRecommendationsFromKarenai w) = [karenai_request (Getenv w ''KARENAI_API_KEY'')])
   \<and> req_url (karenai_request (Getenv w ''KARENAI_API_KEY'')) = KARENAI_API_URL"
  by (auto simp: GetRecommendationsFromKarenai_def karenai_request_def Let_def
        split: http_outcome.splits option.splits if_splits)

theorem rating_client_error_conditions_witness:
  "fst (GetRecommendationsFromKarenai sample_world) = Inr [aapl, msft]
   \<and> client_Do sample_world (karenai_request (Getenv sample_world ''KARENAI_API_KEY''))
       = Response 200 ''{items}''
   \<and> json_Unmarshal_karenai sample_world ''{items}''
       = Some \<lparr>Items = [aapl, msft], NextPage = ''page-2''\<rparr>
   \<and> snd (GetRecommendationsFromKarenai sample_world) = [karenai_request ''key'']
   \<and> isl (fst (GetRecommendationsFromKarenai created_world))
   \<and> client_Do created_world (karenai_request (Getenv created_world ''KARENAI_API_KEY''))
       = Response 201 ''{items}''"
  using rating_client_error_conditions [of sample_world "[aapl, msft]"]
        rating_client_error_conditions [of created_world "[]"]
  by (simp add: GetRecommendationsFromKarenai_def created_world_def sample_world_def)

section \<open>Claims about serialization and storage\<close>

text \<open>
  C7, as the specification words it, says that every present value survives
  marshaling followed by unmarshaling. A present positive infinity does not:
  the standard encoder refuses it, \<^verbatim>\<open>MarshalJSON\<close> returns that error and
  there is no text to unmarshal.
\<close>

theorem present_infinity_does_not_round_trip_counterexample:
  "Valid \<lparr>Float64 = PosInf, Valid = True\<rparr>
   \<and> MarshalJSON sample_format \<lparr>Float64 = PosInf, Valid = True\<rparr>
       = Inl (Errorf ''json: unsupported value'' None)
   \<and> marshal_then_unmarshal sample_format sample_parse zero_NullFloat64
         \<lparr>Float64 = PosInf, Valid = True\<rparr>
       = Inl (Errorf ''json: unsupported value'' None)
   \<and> marshal_then_unmarshal sample_format sample_parse zero_NullFloat64
         \<lparr>Float64 = PosInf, Valid = True\<rparr>
       \<noteq> Inr (None, \<lparr>Float64 = PosInf, Valid = True\<rparr>)"
  by (simp add: marshal_then_unmarshal_def MarshalJSON_def json_Marshal_def)

text \<open>
  C7, amended. Marshaling an absent value gives the text \<^verbatim>\<open>null\<close>.
  Unmarshaling \<^verbatim>\<open>null\<close>, the empty text, the empty JSON string and each of
  the four spellings of the JSON string "n/a" returns no error and an absent
  value, and so does any text that, once the Unicode white space around it is
  removed, is one of the first three or lower-cases to the fourth; the number
  field is left as it was, so the value is never a present 0. Any other text
  that the standard decoder does not accept as a \<^verbatim>\<open>float64\<close> (as it does not
  accept a JSON string) is an error, and the value is absent. A present finite
  value marshals to the text the standard encoder writes for its number, and a
  text beginning as a number that the standard decoder accepts unmarshals to
  that number, present. Hence, when the decoder reads the encoder's text of a
  present finite value back as the same number, marshaling and then
  unmarshaling returns that value, present. A present NaN or infinity does
  not round-trip: marshaling it is an error. Marshaling and then unmarshaling
  an absent value gives an absent value.
\<close>

theorem null_float_json_round_trip:
  \<open>MarshalJSON format (nf\<lparr>Valid := False\<rparr>) = Inr ''null''
   \<and> UnmarshalJSON parse nf ''null'' = (None, nf\<lparr>Valid := False\<rparr>)
   \<and> UnmarshalJSON parse nf '''' = (None, nf\<lparr>Valid := False\<rparr>)
   \<and> UnmarshalJSON parse nf ''""'' = (None, nf\<lparr>Valid := False\<rparr>)
   \<and> UnmarshalJSON parse nf ''"n/a"'' = (None, nf\<lparr>Valid := False\<rparr>)
   \<and> UnmarshalJSON parse nf ''"N/A"'' = (None, nf\<lparr>Valid := False\<rparr>)
   \<and> UnmarshalJSON parse nf ''"N/a"'' = (None, nf\<lparr>Valid := False\<rparr>)
   \<and> UnmarshalJSON parse nf ''"n/A"'' = (None, nf\<lparr>Valid := False\<rparr>)
   \<and> (TrimSpace data = ''null'' \<or> TrimSpace data = '''' \<or> TrimSpace data = ''""''
        \<or> ToLower (TrimSpace data) = ''"n/a"'' \<longrightarrow>
        UnmarshalJSON parse nf data = (None, nf\<lparr>Valid := False\<rparr>))
   \<and> (TrimSpace data \<noteq> ''null'' \<and> TrimSpace data \<noteq> '''' \<and> TrimSpace data \<noteq> ''""''
        \<and> ToLower (TrimSpace data) \<noteq> ''"n/a"'' \<and> parse data = None \<longrightarrow>
        fst (UnmarshalJSON parse nf data) \<noteq> None
        \<and> \<not> Valid (snd (UnmarshalJSON parse nf data)))
   \<and> (Valid v \<and> Float64 v = Finite x \<longrightarrow> MarshalJSON format v = Inr (format x))
   \<and> (begins_number b \<and> parse b = Some y \<longrightarrow>
        UnmarshalJSON parse nf b = (None, \<lparr>Float64 = Finite y, Valid = True\<rparr>))
   \<and> (Valid v \<and> Float64 v = Finite x \<and> begins_number (format x)
        \<and> parse (format x) = Some x \<longrightarrow>
        marshal_then_unmarshal format parse nf v = Inr (None, v))
   \<and> (Valid v \<and> (Float64 v = NaN \<or> Float64 v = PosInf \<or> Float64 v = NegInf) \<longrightarrow>
        MarshalJSON format v = Inl (Errorf ''json: unsupported value'' None)
        \<and> marshal_then_unmarshal format parse nf v
            = Inl (Errorf ''json: unsupported value'' None))
   \<and> (\<not> Valid v \<longrightarrow>
        MarshalJSON format v = Inr ''null''
        \<and> marshal_then_unmarshal format parse nf v = Inr (None, nf\<lparr>Valid := False\<rparr>))\<close>
proof -
  have variants:
    \<open>ToLower ''"n/a"'' = ''"n/a"''\<close> \<open>ToLower ''"N/A"'' = ''"n/a"''\<close>
    \<open>ToLower ''"N/a"'' = ''"n/a"''\<close> \<open>ToLower ''"n/A"'' = ''"n/a"''\<close>
    by code_simp+
  have trims:
    \<open>TrimSpace ''null'' = ''null''\<close> \<open>TrimSpace '''' = ''''\<close> \<open>TrimSpace ''""'' = ''""''\<close>
    \<open>TrimSpace ''"n/a"'' = ''"n/a"''\<close> \<open>TrimSpace ''"N/A"'' = ''"N/A"''\<close>
    \<open>TrimSpace ''"N/a"'' = ''"N/a"''\<close> \<open>TrimSpace ''"n/A"'' = ''"n/A"''\<close>
    by code_simp+
  have absent: "UnmarshalJSON parse nf d = (None, nf\<lparr>Valid := False\<rparr>)"
    if \<open>TrimSpace d = ''null'' \<or> TrimSpace d = '''' \<or> TrimSpace d = ''""''
         \<or> ToLower (TrimSpace d) = ''"n/a"''\<close> for d
    using that by (rule UnmarshalJSON_absent)
  have failure:
    "fst (UnmarshalJSON parse nf data) \<noteq> None \<and> \<not> Valid (snd (UnmarshalJSON parse nf data))"
    if \<open>TrimSpace data \<noteq> ''null''\<close> \<open>TrimSpace data \<noteq> ''''\<close> \<open>TrimSpace data \<noteq> ''""''\<close>
       \<open>ToLower (TrimSpace data) \<noteq> ''"n/a"''\<close> "parse data = None"
    using that by (simp add: UnmarshalJSON_def json_Unmarshal_def Let_def)
  have finite: "MarshalJSON format v = Inr (format x)" if "Valid v" "Float64 v = Finite x"
    using that by (simp add: MarshalJSON_cases)
  have number: "UnmarshalJSON parse nf b = (None, \<lparr>Float64 = Finite y, Valid = True\<rparr>)"
    if "begins_number b" "parse b = Some y"
    using that by (rule UnmarshalJSON_number)
  have present: "marshal_then_unmarshal format parse nf v = Inr (None, v)"
    if "Valid v" "Float64 v = Finite x" "begins_number (format x)" "parse (format x) = Some x"
  proof -
    have "v = \<lparr>Float64 = Finite x, Valid = True\<rparr>"
      using that(1,2) by simp
    then show ?thesis
      using finite [OF that(1,2)] UnmarshalJSON_number [of "format x" parse x nf] that(3,4)
      by (simp add: marshal_then_unmarshal_def)
  qed
  have unsupported:
    "MarshalJSON format v = Inl (Errorf ''json: unsupported value'' None)
     \<and> marshal_then_unmarshal format parse nf v = Inl (Errorf ''json: unsupported value'' None)"
    if "Valid v" "Float64 v = NaN \<or> Float64 v = PosInf \<or> Float64 v = NegInf"
    using that by (auto simp: marshal_then_unmarshal_def MarshalJSON_cases)
  have null: "MarshalJSON format v = Inr ''null''" if "\<not> Valid v" for v
    using that by (simp add: MarshalJSON_def)
  have null_trip: "marshal_then_unmarshal format parse nf v = Inr (None, nf\<lparr>Valid := False\<rparr>)"
    if "\<not> Valid v"
    using null [OF that] absent [of "''null''"]
    by (simp add: marshal_then_unmarshal_def trims)
  show ?thesis
    using absent [of "''null''"] absent [of "[]"] absent [of \<open>''""''\<close>]
      absent [of \<open>''"n/a"''\<close>] absent [of \<open>''"N/A"''\<close>] absent [of \<open>''"N/a"''\<close>]
      absent [of \<open>''"n/A"''\<close>] absent [of data] failure finite number present unsupported
      null [of v] null_trip null [of "nf\<lparr>Valid := False\<rparr>"]
    by (simp add: variants trims)
qed

theorem null_float_json_round_trip_witness:
  \<open>ToLower (TrimSpace '' "N/A" '') = ''"n/a"''
   \<and> UnmarshalJSON sample_parse \<lparr>Float64 = Finite 7, Valid = True\<rparr> '' "N/A" ''
        = (None, \<lparr>Float64 = Finite 7, Valid = False\<rparr>)
   \<and> TrimSpace ([CHR 0xC2, CHR 0xA0] @ ''null'' @ [CHR 0xE2, CHR 0x80, CHR 0x89, CHR 0x0A])
        = ''null''
   \<and> UnmarshalJSON sample_parse \<lparr>Float64 = Finite 7, Valid = True\<rparr>
          ([CHR 0xC2, CHR 0xA0] @ ''null'' @ [CHR 0xE2, CHR 0x80, CHR 0x89, CHR 0x0A])
        = (None, \<lparr>Float64 = Finite 7, Valid = False\<rparr>)
   \<and> sample_parse ''"abc"'' = None
   \<and> fst (UnmarshalJSON sample_parse zero_NullFloat64 ''"abc"'') \<noteq> None
   \<and> \<not> Valid (snd (UnmarshalJSON sample_parse zero_NullFloat64 ''"abc"''))
   \<and> begins_number (sample_format 123.45)
   \<and> sample_parse (sample_format 123.45) = Some 123.45
   \<and> MarshalJSON sample_format \<lparr>Float64 = Finite 123.45, Valid = True\<rparr> = Inr ''123.45''
   \<and> UnmarshalJSON sample_parse \<lparr>Float64 = Finite 7, Valid = True\<rparr> ''123.45''
        = (None, \<lparr>Float64 = Finite 123.45, Valid = True\<rparr>)
   \<and> marshal_then_unmarshal sample_format sample_parse \<lparr>Float64 = Finite 7, Valid = True\<rparr>
          \<lparr>Float64 = Finite 123.45, Valid = True\<rparr>
        = Inr (None, \<lparr>Float64 = Finite 123.45, Valid = True\<rparr>)
   \<and> MarshalJSON sample_format \<lparr>Float64 = NaN, Valid = True\<rparr>
        = Inl (Errorf ''json: unsupported value'' None)
   \<and> \<not> Valid zero_NullFloat64
   \<and> MarshalJSON sample_format zero_NullFloat64 = Inr ''null''
   \<and> marshal_then_unmarshal sample_format sample_parse zero_NullFloat64 zero_NullFloat64
        = Inr (None, zero_NullFloat64)\<close>
proof -
  let ?seven = "\<lparr>Float64 = Finite 7, Valid = True\<rparr>"
  let ?padded = "[CHR 0xC2, CHR 0xA0] @ ''null'' @ [CHR 0xE2, CHR 0x80, CHR 0x89, CHR 0x0A]"
  have a: \<open>ToLower (TrimSpace '' "N/A" '') = ''"n/a"''\<close>
    by code_simp
  have p: "TrimSpace ?padded = ''null''"
    by code_simp
  have b: \<open>TrimSpace ''"abc"'' = ''"abc"''\<close>
    by code_simp
  have c: \<open>ToLower ''"abc"'' \<noteq> ''"n/a"''\<close>
    by code_simp
  have d: \<open>sample_parse ''"abc"'' = None\<close>
    by (simp add: sample_parse_def)
  have e: "sample_format 123.45 = ''123.45''" "begins_number ''123.45''"
    "sample_parse ''123.45'' = Some 123.45"
    "\<not> Valid zero_NullFloat64" "zero_NullFloat64\<lparr>Valid := False\<rparr> = zero_NullFloat64"
    by (simp_all add: sample_format_def sample_parse_def begins_number_def
          zero_NullFloat64_def)
  show ?thesis
    using null_float_json_round_trip [of sample_format ?seven sample_parse
            \<open>'' "N/A" ''\<close> "\<lparr>Float64 = Finite 123.45, Valid = True\<rparr>" "123.45"
            "''123.45''" "123.45"]
          null_float_json_round_trip [of sample_format ?seven sample_parse
            ?padded "\<lparr>Float64 = NaN, Valid = True\<rparr>" 0 "''0''" 0]
          null_float_json_round_trip [of sample_format zero_NullFloat64 sample_parse
            \<open>''"abc"''\<close> zero_NullFloat64 0 "''0''" 0]
          a p b c d e
    by simp
qed

text \<open>
  C9. \<^verbatim>\<open>UpsertStocks\<close> does nothing for an empty batch. When the statement of
  some record fails, the call returns an error, no row has changed, the
  database has not been asked to commit and (the transaction having begun) the
  call ends with a rollback. When the call returns no error for a non-empty
  batch, every statement has succeeded, the call has begun one transaction,
  executed one statement per record inside it, in order, and committed, and
  every ticker of the batch has a row. The database is asked to commit only
  when the statement of every record has succeeded; without a commit no row
  changes; and in every case the rows after the call are either those before
  it or those with every record of the batch applied.
\<close>

theorem upsert_all_or_nothing:
  "(stocks = [] \<longrightarrow> UpsertStocks w db stocks = (None, db))
   \<and> ((\<exists>j < length stocks. \<not> db_Exec_ok w j) \<longrightarrow>
        fst (UpsertStocks w db stocks) \<noteq> None
      \<and> rows (snd (UpsertStocks w db stocks)) = rows db
      \<and> Commit \<notin> set (drop (length (journal db)) (journal (snd (UpsertStocks w db stocks)))))
   \<and> (db_BeginTx_ok w \<and> (\<exists>j < length stocks. \<not> db_Exec_ok w j) \<longrightarrow>
        last (journal (snd (UpsertStocks w db stocks))) = Rollback)
   \<and> (fst (UpsertStocks w db stocks) = None \<and> stocks \<noteq> [] \<longrightarrow>
        (\<forall>j < length stocks. db_Exec_ok w j)
      \<and> journal (snd (UpsertStocks w db stocks))
          = journal db @ [Begin, Prepare] @ map (\<lambda>s. Exec (Ticker s) True) stocks @ [Commit]
      \<and> fst (exec_stocks w 0 (rows db) stocks) = Inr (rows (snd (UpsertStocks w db stocks)))
      \<and> dom (rows (snd (UpsertStocks w db stocks))) = dom (rows db) \<union> Ticker ` set stocks)
   \<and> (Commit \<in> set (drop (length (journal db)) (journal (snd (UpsertStocks w db stocks)))) \<longrightarrow>
        (\<forall>j < length stocks. db_Exec_ok w j))
   \<and> (Commit \<notin> set (drop (length (journal db)) (journal (snd (UpsertStocks w db stocks)))) \<longrightarrow>
        rows (snd (UpsertStocks w db stocks)) = rows db)
   \<and> (rows (snd (UpsertStocks w db stocks)) = rows db
      \<or> fst (exec_stocks w 0 (rows db) stocks) = Inr (rows (snd (UpsertStocks w db stocks))))"
proof -
  let ?x = "exec_stocks w 0 (rows db) stocks"
  have iff: "isl (fst ?x) = (\<exists>j < length stocks. \<not> db_Exec_ok w j)"
    using exec_stocks_ok_iff [of w 0 "rows db" stocks] by simp
  have ev: "Commit \<notin> set (snd ?x)"
    by (simp add: exec_stocks_events)
  show ?thesis
  proof (cases "fst ?x")
    case (Inl e)
    then have some: "\<exists>j < length stocks. \<not> db_Exec_ok w j"
      using iff by simp
    then have "stocks \<noteq> []"
      by auto
    then show ?thesis
      using Inl ev some
      by (cases ?x) (auto simp: UpsertStocks_def)
  next
    case (Inr tx')
    then have all: "\<forall>j < length stocks. db_Exec_ok w j"
      using iff by auto
    have s: "snd ?x = map (\<lambda>s. Exec (Ticker s) True) stocks"
         "dom tx' = dom (rows db) \<union> Ticker ` set stocks"
      using exec_stocks_success [OF Inr] by simp_all
    show ?thesis
      using Inr all s
      by (cases ?x; cases "db_Commit w") (auto simp: UpsertStocks_def)
  qed
qed

theorem upsert_all_or_nothing_witness:
  "(\<exists>j < length [aapl, msft]. \<not> db_Exec_ok second_exec_fails_world j)
   \<and> db_BeginTx_ok second_exec_fails_world
   \<and> fst (UpsertStocks second_exec_fails_world empty_database [aapl, msft]) \<noteq> None
   \<and> rows (snd (UpsertStocks second_exec_fails_world empty_database [aapl, msft]))
       = rows empty_database
   \<and> journal (snd (UpsertStocks second_exec_fails_world empty_database [aapl, msft]))
       = [Begin, Prepare, Exec ''AAPL'' True, Exec ''MSFT'' False, Rollback]
   \<and> fst (UpsertStocks sample_world empty_database [aapl, msft]) = None
   \<and> [aapl, msft] \<noteq> []
   \<and> journal (snd (UpsertStocks sample_world empty_database [aapl, msft]))
       = [Begin, Prepare, Exec ''AAPL'' True, Exec ''MSFT'' True, Commit]
   \<and> dom (rows (snd (UpsertStocks sample_world empty_database [aapl, msft])))
       = {''AAPL'', ''MSFT''}
   \<and> fst (UpsertStocks commit_refused_world empty_database [aapl, msft]) \<noteq> None
   \<and> journal (snd (UpsertStocks commit_refused_world empty_database [aapl, msft]))
       = [Begin, Prepare, Exec ''AAPL'' True, Exec ''MSFT'' True, Commit]
   \<and> rows (snd (UpsertStocks commit_refused_world empty_database [aapl, msft]))
       = rows empty_database
   \<and> UpsertStocks sample_world empty_database [] = (None, empty_database)"
proof -
  have t: "Ticker aapl = ''AAPL''" "Ticker msft = ''MSFT''"
    by (simp_all add: aapl_def msft_def)
  have bad: "\<exists>j < length [aapl, msft]. \<not> db_Exec_ok second_exec_fails_world j"
    by (rule exI [of _ 1]) (simp add: second_exec_fails_world_def)
  have b: "db_BeginTx_ok second_exec_fails_world"
    by (simp add: second_exec_fails_world_def sample_world_def)
  have j: "journal (snd (UpsertStocks second_exec_fails_world empty_database [aapl, msft]))
       = [Begin, Prepare, Exec ''AAPL'' True, Exec ''MSFT'' False, Rollback]"
    by (simp add: UpsertStocks_def second_exec_fails_world_def sample_world_def
          empty_database_def t Let_def)
  have ok: "fst (UpsertStocks sample_world empty_database [aapl, msft]) = None"
    by (simp add: UpsertStocks_def sample_world_def empty_database_def Let_def)
  have r: "UpsertStocks commit_refused_world empty_database [aapl, msft]
       = (Some (Errorf ''error al confirmar la transaccion upsert'' None),
          \<lparr>rows = Map.empty,
           journal = [Begin, Prepare, Exec ''AAPL'' True, Exec ''MSFT'' True, Commit]\<rparr>)"
    by (simp add: UpsertStocks_def commit_refused_world_def sample_world_def
          empty_database_def t Let_def)
  show ?thesis
    using upsert_all_or_nothing [of "[aapl, msft]" second_exec_fails_world empty_database]
          upsert_all_or_nothing [of "[aapl, msft]" sample_world empty_database]
          upsert_all_or_nothing [of "[]" sample_world empty_database]
          bad b j ok t r
    by (simp add: empty_database_def insert_commute)
qed

text \<open>
  C5. In a cycle whose rating fetch returned the list \<open>stocks\<close>, let the Alpha
  Vantage fetch fail for the ticker at position \<open>x\<close>, and let \<open>y\<close> be the position
  of a different ticker. The cycle still visits every ticker in order (one
  Finnhub and one Alpha Vantage call each) and ends with one call of
  \<^verbatim>\<open>UpsertStocks\<close>, whose batch has one record per rated stock with the same
  tickers. The record at \<open>x\<close> is the Finnhub-merged record with an absent alpha,
  its score and its time stamp. The record at \<open>y\<close> is the one computed from the
  fetches of \<open>y\<close>'s own iteration: it is the same whatever the network does
  during the iteration of \<open>x\<close>. The database after the cycle is what
  \<^verbatim>\<open>UpsertStocks\<close> makes of that batch, and when it succeeds both tickers have
  a row.
\<close>

theorem alpha_failure_is_per_ticker:
  assumes ratings: "fst (GetRecommendationsFromKarenai w) = Inr stocks"
      and x: "x < length stocks" and y: "y < length stocks"
      and xy: "Ticker (stocks ! x) \<noteq> Ticker (stocks ! y)"
      and fail: "snd (GetAlphaAndLatestTradingDayFromAlphaVantage w x (Ticker (stocks ! x))) \<noteq> None"
  shows "calls (fetchAndEnrichStocks w st)
           = calls st @ [CallKarenai]
               @ concat (map (\<lambda>s. [CallFinnhub (Ticker s), CallAlphaVantage (Ticker s)]) stocks)
               @ [CallUpsertStocks (fst (enrich_loop w 0 stocks))]
       \<and> length (fst (enrich_loop w 0 stocks)) = length stocks
       \<and> map Ticker (fst (enrich_loop w 0 stocks)) = map Ticker stocks
       \<and> fst (enrich_loop w 0 stocks) ! x =
           (let s1 = assign_finnhub (stocks ! x) (GetFinnhubMetricsAndQuote w x (Ticker (stocks ! x)))
            in s1\<lparr>Alpha := null_float,
                  RecommendationScore :=
                    \<lparr>Float64 = CalculateRecommendationScore (float64_mul w) s1, Valid = True\<rparr>,
                  UpdatedAt := time_Now w x\<rparr>)
       \<and> \<not> Valid (Alpha (fst (enrich_loop w 0 stocks) ! x))
       \<and> fst (enrich_loop w 0 stocks) ! y = enrich_ticker w y (stocks ! y)
       \<and> fst (enrich_loop (w\<lparr>http_Get := (http_Get w)(x := g)\<rparr>) 0 stocks) ! y
           = fst (enrich_loop w 0 stocks) ! y
       \<and> store (fetchAndEnrichStocks w st)
           = snd (UpsertStocks w (store st) (fst (enrich_loop w 0 stocks)))
       \<and> (fst (UpsertStocks w (store st) (fst (enrich_loop w 0 stocks))) = None \<longrightarrow>
            Ticker (stocks ! x) \<in> dom (rows (store (fetchAndEnrichStocks w st)))
          \<and> Ticker (stocks ! y) \<in> dom (rows (store (fetchAndEnrichStocks w st))))"
proof -
  let ?batch = "fst (enrich_loop w 0 stocks)"
  have ne: "y \<noteq> x" using xy by auto
  have c: "calls (fetchAndEnrichStocks w st)
           = calls st @ [CallKarenai]
               @ concat (map (\<lambda>s. [CallFinnhub (Ticker s), CallAlphaVantage (Ticker s)]) stocks)
               @ [CallUpsertStocks ?batch]"
    using fetch_calls [OF ratings] by (simp add: enrich_loop_calls)
  have l: "length ?batch = length stocks"
    by (rule enrich_loop_length)
  have t: "map Ticker ?batch = map Ticker stocks"
    by (rule nth_equalityI) (simp_all add: l enrich_loop_nth enrich_ticker_Ticker)
  obtain d e where r: "GetAlphaAndLatestTradingDayFromAlphaVantage w x (Ticker (stocks ! x)) = (d, Some e)"
    using fail by (cases "GetAlphaAndLatestTradingDayFromAlphaVantage w x (Ticker (stocks ! x))") auto
  have bx: "?batch ! x =
           (let s1 = assign_finnhub (stocks ! x) (GetFinnhubMetricsAndQuote w x (Ticker (stocks ! x)))
            in s1\<lparr>Alpha := null_float,
                  RecommendationScore :=
                    \<lparr>Float64 = CalculateRecommendationScore (float64_mul w) s1, Valid = True\<rparr>,
                  UpdatedAt := time_Now w x\<rparr>)"
    using x r score_ignores_alpha [of _ _ "(d, Some e)"]
    by (simp add: enrich_loop_nth enrich_ticker_steps Let_def)
       (simp add: assign_alpha_def null_float_def)
  have ax: "\<not> Valid (Alpha (?batch ! x))"
    by (simp add: bx Let_def null_float_def)
  have byy: "?batch ! y = enrich_ticker w y (stocks ! y)"
    using y by (simp add: enrich_loop_nth)
  have iso: "fst (enrich_loop (w\<lparr>http_Get := (http_Get w)(x := g)\<rparr>) 0 stocks) ! y = ?batch ! y"
    using y ne by (simp add: enrich_loop_nth enrich_ticker_other_iteration)
  have st: "store (fetchAndEnrichStocks w st) = snd (UpsertStocks w (store st) ?batch)"
    by (rule fetch_store [OF ratings])
  have tick: "Ticker ` set ?batch = Ticker ` set stocks"
    using t by (metis set_map)
  have mem: "Ticker (stocks ! x) \<in> Ticker ` set stocks" "Ticker (stocks ! y) \<in> Ticker ` set stocks"
    using x y by simp_all
  have saved: "Ticker (stocks ! x) \<in> dom (rows (store (fetchAndEnrichStocks w st)))
             \<and> Ticker (stocks ! y) \<in> dom (rows (store (fetchAndEnrichStocks w st)))"
    if "fst (UpsertStocks w (store st) ?batch) = None"
    using UpsertStocks_success_dom [OF that] tick mem by (simp add: st)
  show ?thesis
    using c l t bx ax byy iso st saved by simp
qed

theorem alpha_failure_is_per_ticker_witness:
  "fst (GetRecommendationsFromKarenai sample_world) = Inr [aapl, msft]
   \<and> (0::nat) < length [aapl, msft] \<and> (1::nat) < length [aapl, msft]
   \<and> Ticker ([aapl, msft] ! 0) \<noteq> Ticker ([aapl, msft] ! 1)
   \<and> snd (GetAlphaAndLatestTradingDayFromAlphaVantage sample_world 0 (Ticker ([aapl, msft] ! 0)))
       \<noteq> None
   \<and> calls (fetchAndEnrichStocks sample_world \<lparr>calls = [], store = empty_database\<rparr>)
       = [CallKarenai, CallFinnhub ''AAPL'', CallAlphaVantage ''AAPL'',
          CallFinnhub ''MSFT'', CallAlphaVantage ''MSFT'',
          CallUpsertStocks (fst (enrich_loop sample_world 0 [aapl, msft]))]
   \<and> map Ticker (fst (enrich_loop sample_world 0 [aapl, msft])) = [''AAPL'', ''MSFT'']
   \<and> \<not> Valid (Alpha (fst (enrich_loop sample_world 0 [aapl, msft]) ! 0))
   \<and> fst (enrich_loop sample_world 0 [aapl, msft]) ! 1 = enrich_ticker sample_world 1 msft
   \<and> fst (enrich_loop (sample_world\<lparr>http_Get := (http_Get sample_world)(0 := (\<lambda>_. ReadFailed))\<rparr>)
             0 [aapl, msft]) ! 1
       = enrich_ticker sample_world 1 msft
   \<and> fst (UpsertStocks sample_world empty_database (fst (enrich_loop sample_world 0 [aapl, msft])))
       = None
   \<and> ''AAPL'' \<in> dom (rows (store (fetchAndEnrichStocks sample_world
                                     \<lparr>calls = [], store = empty_database\<rparr>)))
   \<and> ''MSFT'' \<in> dom (rows (store (fetchAndEnrichStocks sample_world
                                     \<lparr>calls = [], store = empty_database\<rparr>)))"
proof -
  have r: "fst (GetRecommendationsFromKarenai sample_world) = Inr [aapl, msft]"
    by (simp add: GetRecommendationsFromKarenai_def sample_world_def)
  have t: "Ticker aapl = ''AAPL''" "Ticker msft = ''MSFT''"
    by (simp_all add: aapl_def msft_def zero_Stock_def)
  have xy: "Ticker ([aapl, msft] ! 0) \<noteq> Ticker ([aapl, msft] ! 1)"
    by (simp add: t)
  have f: "snd (GetAlphaAndLatestTradingDayFromAlphaVantage sample_world 0 (Ticker ([aapl, msft] ! 0)))
       \<noteq> None"
    by (simp add: t GetAlphaAndLatestTradingDayFromAlphaVantage_def returning_def sample_defs)
  have x: "(0::nat) < length [aapl, msft]" and y: "(1::nat) < length [aapl, msft]"
    by simp_all
  have u: "fst (UpsertStocks sample_world empty_database (fst (enrich_loop sample_world 0 [aapl, msft])))
       = None"
    by (simp add: UpsertStocks_def enrich_loop_Cons sample_world_def Let_def
          del: enrich_loop.simps(2))
  show ?thesis
    using alpha_failure_is_per_ticker [OF r x y xy f,
            of "\<lparr>calls = [], store = empty_database\<rparr>" "\<lambda>_. ReadFailed"]
          r xy f t u
    by (elim conjE) (simp add: Let_def assign_finnhub_Ticker null_float_def)
qed

end
